theory Spec2Isabelle
  imports Main
begin

section \<open>Python values and string helpers\<close>

text \<open>
  The console of peepdf (\<^verbatim>\<open>PDFConsole.py\<close>) is Python: a value held by a console
  variable or read from a file is a \<^verbatim>\<open>str\<close>, a \<^verbatim>\<open>bytes\<close>, an \<^verbatim>\<open>int\<close>,
  \<^verbatim>\<open>None\<close> or a list. Command arguments are always \<^verbatim>\<open>str\<close> (the result of
  \<^verbatim>\<open>parseArgs\<close>); \<^verbatim>\<open>open(f, "rb").read()\<close> is always \<^verbatim>\<open>bytes\<close>.
  Characters are modelled as 8-bit \<^typ>\<open>char\<close>; arguments are taken to be ASCII.
\<close>

datatype pyval = PStr string | PBytes string | PInt int | PNone | PList "pyval list"

datatype exn = AttributeError | TypeError | KeyError | ValueError | IndexError | EOFError | OSError

text \<open>
  What a command does that the user can see: a call of \<^verbatim>\<open>log_output\<close> with a message,
  a call of \<^verbatim>\<open>log_output\<close> with result bytes (\<^verbatim>\<open>bytesOutput=True\<close>), a call of the
  command's \<^verbatim>\<open>help_\<close> method, text printed straight to the terminal, a value written
  to a named file, or an exception that leaves the command.
\<close>

datatype event = Log string | LogBytes pyval | HelpShown | Printed | Wrote string pyval | Raised exn

definition is_digit_char :: "char \<Rightarrow> bool" where
  "is_digit_char c = (c \<in> set ''0123456789'')"

text \<open>\<^verbatim>\<open>str.isdigit()\<close>: a non-empty string of digits.\<close>

definition isdigit :: "string \<Rightarrow> bool" where
  "isdigit s = (s \<noteq> [] \<and> list_all is_digit_char s)"

definition digit_val :: "char \<Rightarrow> nat" where
  "digit_val c = of_char c - of_char CHR ''0''"

text \<open>\<^verbatim>\<open>int(s)\<close> on a string of digits.\<close>

definition int_of_str :: "string \<Rightarrow> nat" where
  "int_of_str s = foldl (\<lambda>acc c. 10 * acc + digit_val c) 0 s"

definition lower_char :: "char \<Rightarrow> char" where
  "lower_char c =
    (let n = (of_char c :: nat) in if 65 \<le> n \<and> n \<le> 90 then char_of (n + 32) else c)"

text \<open>\<^verbatim>\<open>str.lower()\<close> on ASCII.\<close>

definition lower :: "string \<Rightarrow> string" where
  "lower s = map lower_char s"

section \<open>The filter tables\<close>

text \<open>The module-level dictionary \<^verbatim>\<open>filter2RealFilterDict\<close> (lines 94 to 111).\<close>

definition filter2RealFilterDict :: "(string \<times> string) list" where
  "filter2RealFilterDict =
    [(''b64'', ''base64''),
     (''base64'', ''base64''),
     (''asciihex'', ''/ASCIIHexDecode''),
     (''ahx'', ''/ASCIIHexDecode''),
     (''ascii85'', ''/ASCII85Decode''),
     (''a85'', ''/ASCII85Decode''),
     (''lzw'', ''/LZWDecode''),
     (''flatedecode'', ''/FlateDecode''),
     (''fl'', ''/FlateDecode''),
     (''runlength'', ''/RunLengthDecode''),
     (''rl'', ''/RunLengthDecode''),
     (''ccittfax'', ''/CCITTFaxDecode''),
     (''ccf'', ''/CCITTFaxDecode''),
     (''jbig2'', ''/JBIG2Decode''),
     (''dct'', ''/DCTDecode''),
     (''jpx'', ''/JPXDecode'')]"

definition filter_keys :: "string list" where
  "filter_keys = map fst filter2RealFilterDict"

section \<open>The outside world of a command\<close>

text \<open>
  Functions the console imports from modules that are not part of this development
  (\<^verbatim>\<open>PDFUtils\<close>, \<^verbatim>\<open>PDFFilters\<close>, \<^verbatim>\<open>base64\<close>, \<^verbatim>\<open>os\<close>) are parameters: every theorem
  holds whatever they compute. A function returning \<^verbatim>\<open>(-1, error)\<close> or \<^verbatim>\<open>(0, value)\<close>
  is a sum with the error message on the left; a function that may raise has the
  exception's text (or the exception) on the left. \<^verbatim>\<open>read_file\<close> gives the bytes that
  \<^verbatim>\<open>open(f, "rb").read()\<close> returns.
\<close>

record 'p world =
  path_exists :: "string \<Rightarrow> bool"
  read_file :: "string \<Rightarrow> string"
  getPath :: "'p \<Rightarrow> string"
  getBytesFromFile :: "string \<Rightarrow> nat \<Rightarrow> nat \<Rightarrow> string + pyval"
  b64decode :: "pyval \<Rightarrow> string + pyval"
  b64encode :: "pyval \<Rightarrow> exn + pyval"
  decodeStream :: "pyval \<Rightarrow> string \<Rightarrow> string + pyval"
  encodeStream :: "pyval \<Rightarrow> string \<Rightarrow> string + pyval"

text \<open>
  A console variable is a two-element list \<^verbatim>\<open>[current, default]\<close>. The two slots
  may hold one and the same object (\<^verbatim>\<open>[v, v]\<close>), which shows when a list is extended
  in place: \<open>Same v\<close> is that case, \<open>Two c d\<close> the case of two objects.
\<close>

datatype var_entry = Two pyval pyval | Same pyval

fun slot0 :: "var_entry \<Rightarrow> pyval" where
  "slot0 (Two c d) = c"
| "slot0 (Same v) = v"

fun slot1 :: "var_entry \<Rightarrow> pyval" where
  "slot1 (Two c d) = d"
| "slot1 (Same v) = v"

text \<open>\<^verbatim>\<open>entry[0] = v\<close>\<close>

definition set_slot0 :: "var_entry \<Rightarrow> pyval \<Rightarrow> var_entry" where
  "set_slot0 e v = Two v (slot1 e)"

type_synonym variables = "string \<rightharpoonup> var_entry"

definition msg_not_parsed :: string where
  "msg_not_parsed = ''[!] Error: The command line arguments have not been parsed successfully''"

definition msg_must_open :: string where
  "msg_must_open = ''[!] Error: You must open a file''"

definition msg_file_not_exist :: string where
  "msg_file_not_exist = ''[!] Error: The file does not exist''"

definition msg_var_not_exist :: string where
  "msg_var_not_exist = ''[!] Error: The variable does not exist''"

definition msg_content_empty :: string where
  "msg_content_empty = ''[!] Error: The content is empty''"

definition msg_offset_int :: string where
  "msg_offset_int = ''[!] Error: \"offset\" and \"num_bytes\" must be integers''"

definition validTypes :: "string list" where
  "validTypes = [''variable'', ''file'', ''raw'', ''string'']"

section \<open>The decode command\<close>

text \<open>
  \<^verbatim>\<open>do_decode\<close>, line 464:
  \<^verbatim>\<open>notImplementedFilters = ["ccittfax" "ccf", "jbig2", "dct", "jpx"]\<close>.
  There is no comma between the first two literals, and Python joins adjacent string
  literals: the list has four elements, the first being \<^verbatim>\<open>"ccittfaxccf"\<close>.
\<close>

definition decode_notImplementedFilters :: "string list" where
  "decode_notImplementedFilters = [''ccittfax'' @ ''ccf'', ''jbig2'', ''dct'', ''jpx'']"

text \<open>
  The local variables of \<^verbatim>\<open>do_decode\<close> and \<^verbatim>\<open>do_encode\<close> after the arguments have
  been read.
\<close>

record codec_locals =
  l_srcType :: string
  l_src :: string
  l_offset :: nat
  l_size :: nat
  l_filters :: "string list"

text \<open>
  Lines 497 to 506: the loop over the filter arguments. Each is lowered, looked up in
  the dictionary's keys, then in the not-implemented list, then appended.
\<close>

fun decode_filter_args :: "string list \<Rightarrow> string list \<Rightarrow> event list + string list" where
  "decode_filter_args [] fs = Inr fs"
| "decode_filter_args (a # as) fs =
     (let fileFilter = lower a in
      if fileFilter \<notin> set filter_keys then Inl [HelpShown]
      else if fileFilter \<in> set decode_notImplementedFilters then
        Inl [Log (''[!] Error: Filter '' @ fileFilter @ '' not implemented yet!'')]
      else decode_filter_args as (fs @ [fileFilter]))"

text \<open>Lines 466 to 509.\<close>

definition decode_args :: "'p option \<Rightarrow> string list option \<Rightarrow> event list + codec_locals" where
  "decode_args pdfFile args =
    (case args of
       None \<Rightarrow> Inl [Log msg_not_parsed, HelpShown]
     | Some [] \<Rightarrow> Inl [Log msg_not_parsed, HelpShown]
     | Some args \<Rightarrow>
        if length args > 2 then
          (if args ! 0 \<notin> set validTypes then Inl [HelpShown]
           else if args ! 0 \<in> set [''variable'', ''file'', ''string''] then
             (case decode_filter_args (drop 2 args) [] of
                Inl ev \<Rightarrow> Inl ev
              | Inr fs \<Rightarrow> Inr \<lparr>l_srcType = args ! 0, l_src = args ! 1, l_offset = 0, l_size = 0,
                              l_filters = fs\<rparr>)
           else if pdfFile = None then Inl [Log msg_must_open]
           else if length args < 3 then Inl [HelpShown]
           else if \<not> isdigit (args ! 1) \<or> \<not> isdigit (args ! 2) then Inl [Log msg_offset_int]
           else
             (case decode_filter_args (drop 3 args) [] of
                Inl ev \<Rightarrow> Inl ev
              | Inr fs \<Rightarrow> Inr \<lparr>l_srcType = args ! 0, l_src = [], l_offset = int_of_str (args ! 1),
                              l_size = int_of_str (args ! 2), l_filters = fs\<rparr>))
        else Inl [HelpShown])"

text \<open>
  Lines 511 to 537: the content to decode. \<^verbatim>\<open>decodedContent == ""\<close> holds of the empty
  \<^verbatim>\<open>str\<close> only. In the last branch \<^verbatim>\<open>srcType\<close> is \<^verbatim>\<open>"raw"\<close> and a file is open.
\<close>

definition content_guard :: "pyval \<Rightarrow> event list + pyval" where
  "content_guard c = (if c = PStr [] then Inl [Log msg_content_empty] else Inr c)"

definition decode_content ::
  "'p world \<Rightarrow> 'p option \<Rightarrow> variables \<Rightarrow> codec_locals \<Rightarrow> event list + pyval" where
  "decode_content w pdfFile vars l =
    (if l_srcType l = ''variable'' then
       (case vars (l_src l) of
          None \<Rightarrow> Inl [Log msg_var_not_exist]
        | Some e \<Rightarrow> content_guard (slot0 e))
     else if l_srcType l = ''file'' then
       (if \<not> path_exists w (l_src l) then Inl [Log msg_file_not_exist]
        else content_guard (PBytes (read_file w (l_src l))))
     else if l_srcType l = ''string'' then content_guard (PStr (l_src l))
     else
       (case pdfFile of
          None \<Rightarrow> Inl [Raised AttributeError]
        | Some p \<Rightarrow>
           (case getBytesFromFile w (getPath w p) (l_offset l) (l_size l) of
              Inl err \<Rightarrow> Inl [Log msg_file_not_exist]
            | Inr c \<Rightarrow> content_guard c)))"

text \<open>
  Lines 538 to 556: the loop over the accepted filters, then the output. A failing step
  logs its message and returns; the decoded content is logged after the last step only.
\<close>

fun decode_loop :: "'p world \<Rightarrow> string list \<Rightarrow> pyval \<Rightarrow> event list" where
  "decode_loop w [] decodedContent = [LogBytes decodedContent]"
| "decode_loop w (fileFilter # fs) decodedContent =
     (case map_of filter2RealFilterDict fileFilter of
        None \<Rightarrow> [Raised KeyError]
      | Some realFilter \<Rightarrow>
         if realFilter = ''base64'' then
           (case b64decode w decodedContent of
              Inl err \<Rightarrow> [Log (''[!] Error: '' @ err)]
            | Inr c \<Rightarrow> decode_loop w fs c)
         else
           (case decodeStream w decodedContent realFilter of
              Inl err \<Rightarrow> [Log (''[!] Error: '' @ err)]
            | Inr c \<Rightarrow> decode_loop w fs c))"

definition do_decode ::
  "'p world \<Rightarrow> 'p option \<Rightarrow> variables \<Rightarrow> string list option \<Rightarrow> event list" where
  "do_decode w pdfFile vars args =
    (case decode_args pdfFile args of
       Inl ev \<Rightarrow> ev
     | Inr l \<Rightarrow>
        (case decode_content w pdfFile vars l of
           Inl ev \<Rightarrow> ev
         | Inr c \<Rightarrow> decode_loop w (l_filters l) c))"

text \<open>
  The decode chain as the specification words it: the steps are applied one after the
  other in list order, each to the output of the one before, and the first failure is
  the result of the whole chain.
\<close>

definition chain_spec :: "('a \<Rightarrow> string + 'a) list \<Rightarrow> 'a \<Rightarrow> string + 'a" where
  "chain_spec steps c =
     foldl (\<lambda>acc step. case acc of Inl err \<Rightarrow> Inl err | Inr x \<Rightarrow> step x) (Inr c) steps"

text \<open>One decoding step for a filter name given on the command line.\<close>

definition decode_step :: "'p world \<Rightarrow> string \<Rightarrow> pyval \<Rightarrow> string + pyval" where
  "decode_step w f c =
    (case map_of filter2RealFilterDict f of
       None \<Rightarrow> Inl ''KeyError''
     | Some realFilter \<Rightarrow>
        if realFilter = ''base64'' then b64decode w c else decodeStream w c realFilter)"

section \<open>The encode command\<close>

text \<open>\<^verbatim>\<open>do_encode\<close>, lines 954 to 964.\<close>

definition encode_notImplementedFilters :: "string list" where
  "encode_notImplementedFilters =
     [''ascii85'', ''a85'', ''runlength'', ''rl'', ''jbig2'', ''jpx'', ''ccittfax'', ''ccf'', ''dct'']"

text \<open>Lines 997 to 1006.\<close>

fun encode_filter_args :: "string list \<Rightarrow> string list \<Rightarrow> event list + string list" where
  "encode_filter_args [] fs = Inr fs"
| "encode_filter_args (a # as) fs =
     (let fileFilter = lower a in
      if fileFilter \<notin> set filter_keys then Inl [HelpShown]
      else if fileFilter \<in> set encode_notImplementedFilters then
        Inl [Log (''[!] Error: Filter \"'' @ fileFilter @ ''\" not implemented yet'')]
      else encode_filter_args as (fs @ [fileFilter]))"

text \<open>
  Lines 966 to 1009. In raw mode, line 995 is \<^verbatim>\<open>offset = int(args[1])\<close> and line 996
  is \<^verbatim>\<open>size = int(args[1])\<close>.
\<close>

definition encode_args :: "'p option \<Rightarrow> string list option \<Rightarrow> event list + codec_locals" where
  "encode_args pdfFile args =
    (case args of
       None \<Rightarrow> Inl [Log msg_not_parsed, HelpShown]
     | Some [] \<Rightarrow> Inl [Log msg_not_parsed, HelpShown]
     | Some args \<Rightarrow>
        if length args > 2 then
          (if args ! 0 \<notin> set validTypes then Inl [HelpShown]
           else if args ! 0 \<in> set [''variable'', ''file'', ''string''] then
             (case encode_filter_args (drop 2 args) [] of
                Inl ev \<Rightarrow> Inl ev
              | Inr fs \<Rightarrow> Inr \<lparr>l_srcType = args ! 0, l_src = args ! 1, l_offset = 0, l_size = 0,
                              l_filters = fs\<rparr>)
           else if pdfFile = None then Inl [Log msg_must_open]
           else if length args < 3 then Inl [HelpShown]
           else if \<not> isdigit (args ! 1) \<or> \<not> isdigit (args ! 2) then Inl [Log msg_offset_int]
           else
             (case encode_filter_args (drop 3 args) [] of
                Inl ev \<Rightarrow> Inl ev
              | Inr fs \<Rightarrow> Inr \<lparr>l_srcType = args ! 0, l_src = [], l_offset = int_of_str (args ! 1),
                              l_size = int_of_str (args ! 1), l_filters = fs\<rparr>))
        else Inl [HelpShown])"

text \<open>Lines 1011 to 1037: the same steps as in \<^verbatim>\<open>do_decode\<close>.\<close>

definition encode_content ::
  "'p world \<Rightarrow> 'p option \<Rightarrow> variables \<Rightarrow> codec_locals \<Rightarrow> event list + pyval" where
  "encode_content w pdfFile vars l =
    (if l_srcType l = ''variable'' then
       (case vars (l_src l) of
          None \<Rightarrow> Inl [Log msg_var_not_exist]
        | Some e \<Rightarrow> content_guard (slot0 e))
     else if l_srcType l = ''file'' then
       (if \<not> path_exists w (l_src l) then Inl [Log msg_file_not_exist]
        else content_guard (PBytes (read_file w (l_src l))))
     else if l_srcType l = ''string'' then content_guard (PStr (l_src l))
     else
       (case pdfFile of
          None \<Rightarrow> Inl [Raised AttributeError]
        | Some p \<Rightarrow>
           (case getBytesFromFile w (getPath w p) (l_offset l) (l_size l) of
              Inl err \<Rightarrow> Inl [Log msg_file_not_exist]
            | Inr c \<Rightarrow> content_guard c)))"

text \<open>
  Lines 1038 to 1051. \<^verbatim>\<open>b64encode\<close> is called outside any \<^verbatim>\<open>try\<close>: what it raises
  leaves the command.
\<close>

fun encode_loop :: "'p world \<Rightarrow> string list \<Rightarrow> pyval \<Rightarrow> event list" where
  "encode_loop w [] encodedContent = [LogBytes encodedContent]"
| "encode_loop w (fileFilter # fs) encodedContent =
     (case map_of filter2RealFilterDict fileFilter of
        None \<Rightarrow> [Raised KeyError]
      | Some realFilter \<Rightarrow>
         if realFilter = ''base64'' then
           (case b64encode w encodedContent of
              Inl e \<Rightarrow> [Raised e]
            | Inr c \<Rightarrow> encode_loop w fs c)
         else
           (case encodeStream w encodedContent realFilter of
              Inl err \<Rightarrow> [Log (''[!] Error: '' @ err)]
            | Inr c \<Rightarrow> encode_loop w fs c))"

definition do_encode ::
  "'p world \<Rightarrow> 'p option \<Rightarrow> variables \<Rightarrow> string list option \<Rightarrow> event list" where
  "do_encode w pdfFile vars args =
    (case encode_args pdfFile args of
       Inl ev \<Rightarrow> ev
     | Inr l \<Rightarrow>
        (case encode_content w pdfFile vars l of
           Inl ev \<Rightarrow> ev
         | Inr c \<Rightarrow> encode_loop w (l_filters l) c))"

text \<open>A world for concrete runs: no file exists, base-64 never fails, no stream filter works.\<close>

definition test_world :: "unit world" where
  "test_world =
    \<lparr>path_exists = (\<lambda>f. False), read_file = (\<lambda>f. []), getPath = (\<lambda>p. ''doc.pdf''),
     getBytesFromFile = (\<lambda>f off n. Inr (PBytes (replicate n CHR ''x''))),
     b64decode = (\<lambda>c. Inr c), b64encode = (\<lambda>c. Inr c),
     decodeStream = (\<lambda>c f. Inl ''decoding error''),
     encodeStream = (\<lambda>c f. Inl ''encoding error'')\<rparr>"

section \<open>Python string methods\<close>

definition starts_with :: "string \<Rightarrow> string \<Rightarrow> bool" where
  "starts_with s p = (take (length p) s = p)"

text \<open>\<^verbatim>\<open>s.find(sub)\<close>: the least index where \<^verbatim>\<open>sub\<close> starts, \<open>None\<close> for \<^verbatim>\<open>-1\<close>.\<close>

fun py_find :: "string \<Rightarrow> string \<Rightarrow> nat option" where
  "py_find [] sub = (if sub = [] then Some 0 else None)"
| "py_find (c # cs) sub =
     (if starts_with (c # cs) sub then Some 0 else map_option Suc (py_find cs sub))"

text \<open>
  \<^verbatim>\<open>s.replace(old, new)\<close> for a non-empty \<^verbatim>\<open>old\<close>: occurrences are taken from the
  left and do not overlap.
\<close>

function replace_ne :: "string \<Rightarrow> string \<Rightarrow> string \<Rightarrow> string" where
  "replace_ne [] old new = []"
| "replace_ne (c # cs) old new =
     (if starts_with (c # cs) old then new @ replace_ne (drop (length old - 1) cs) old new
      else c # replace_ne cs old new)"
  by pat_completeness auto
termination
  by (relation "measure (\<lambda>(s, old, new). length s)") auto

text \<open>With an empty \<^verbatim>\<open>old\<close>, Python puts \<^verbatim>\<open>new\<close> before every character and at the end.\<close>

definition py_replace :: "string \<Rightarrow> string \<Rightarrow> string \<Rightarrow> string" where
  "py_replace s old new =
     (if old = [] then new @ concat (map (\<lambda>c. c # new) s) else replace_ne s old new)"

text \<open>\<^verbatim>\<open>s.strip(chars)\<close>\<close>

definition py_strip :: "string \<Rightarrow> string \<Rightarrow> string" where
  "py_strip s chars =
     rev (dropWhile (\<lambda>c. c \<in> set chars) (rev (dropWhile (\<lambda>c. c \<in> set chars) s)))"

definition digit_char :: "nat \<Rightarrow> char" where
  "digit_char d = char_of (48 + d)"

text \<open>\<^verbatim>\<open>str(n)\<close> for a natural number.\<close>

fun str_of_nat :: "nat \<Rightarrow> string" where
  "str_of_nat n = (if n < 10 then [digit_char n] else str_of_nat (n div 10) @ [digit_char (n mod 10)])"

declare str_of_nat.simps [simp del]

section \<open>Output of a command: \<^verbatim>\<open>log_output\<close>\<close>

text \<open>
  The redirection that \<^verbatim>\<open>parseArgs\<close> found on the command line (\<^verbatim>\<open>>\<close>, \<^verbatim>\<open>>>\<close>,
  \<^verbatim>\<open>$>\<close>, \<^verbatim>\<open>$>>\<close>) and the console attributes \<^verbatim>\<open>log_output\<close> reads.
  \<^verbatim>\<open>printResult\<close> depends on \<^verbatim>\<open>countNonPrintableChars\<close> of \<^verbatim>\<open>PDFUtils\<close> and is
  a parameter.
\<close>

datatype redirection = FILE_WRITE | FILE_ADD | VAR_WRITE | VAR_ADD

record io =
  redirect :: "redirection option"
  outputVarName :: "string option"
  outputFileName :: "string option"
  loggingFile :: "string option"
  errorColor :: string
  resetColor :: string
  newLine :: string
  printResult :: "string \<Rightarrow> string"

text \<open>Lines 4773 to 4787.\<close>

definition nice_output :: "io \<Rightarrow> string \<Rightarrow> bool \<Rightarrow> string" where
  "nice_output io output bytesOutput =
    (let output1 =
       (case py_find output ''[!] Error'' of
          None \<Rightarrow> output
        | Some errorIndex \<Rightarrow>
            take errorIndex output @ errorColor io @ drop errorIndex output @ resetColor io);
      niceOutput1 = (if bytesOutput \<and> output1 \<noteq> [] then printResult io output1 else output1);
      niceOutput2 = py_strip niceOutput1 (newLine io);
      niceOutput3 = py_replace niceOutput2 [CHR 0x0D, CHR 0x0A] [CHR 0x0A]
     in py_replace niceOutput3 [CHR 0x0D] [CHR 0x0A])"

text \<open>What iterating over a value gives, as \<^verbatim>\<open>list += value\<close> needs it.\<close>

fun py_iter :: "pyval \<Rightarrow> pyval list option" where
  "py_iter (PStr s) = Some (map (\<lambda>c. PStr [c]) s)"
| "py_iter (PBytes b) = Some (map (\<lambda>c. PInt (int (of_char c))) b)"
| "py_iter (PList ys) = Some ys"
| "py_iter (PInt i) = None"
| "py_iter PNone = None"

text \<open>A list extended in place stays the object it was in both slots that hold it.\<close>

fun extend_slot0 :: "var_entry \<Rightarrow> pyval list \<Rightarrow> var_entry" where
  "extend_slot0 (Same v) zs = Same (PList zs)"
| "extend_slot0 (Two c d) zs = Two (PList zs) d"

text \<open>\<^verbatim>\<open>entry[0] += byteVal\<close> (line 4818).\<close>

fun py_iadd :: "var_entry \<Rightarrow> pyval \<Rightarrow> exn + var_entry" where
  "py_iadd e byteVal =
     (case slot0 e of
        PStr a \<Rightarrow> (case byteVal of PStr b \<Rightarrow> Inr (set_slot0 e (PStr (a @ b))) | _ \<Rightarrow> Inl TypeError)
      | PBytes a \<Rightarrow> (case byteVal of PBytes b \<Rightarrow> Inr (set_slot0 e (PBytes (a @ b))) | _ \<Rightarrow> Inl TypeError)
      | PInt a \<Rightarrow> (case byteVal of PInt b \<Rightarrow> Inr (set_slot0 e (PInt (a + b))) | _ \<Rightarrow> Inl TypeError)
      | PNone \<Rightarrow> Inl TypeError
      | PList xs \<Rightarrow>
          (case py_iter byteVal of None \<Rightarrow> Inl TypeError | Some ys \<Rightarrow> Inr (extend_slot0 e (xs @ ys))))"

text \<open>
  Lines 4794 to 4820: the loop over \<^verbatim>\<open>bytesToSave\<close>. A file opened with \<^verbatim>\<open>"wb"\<close> or
  \<^verbatim>\<open>"ab"\<close> accepts \<^verbatim>\<open>bytes\<close> only. What is written to files is not part of the model;
  the variables are.
\<close>

fun save_bytes :: "io \<Rightarrow> variables \<Rightarrow> nat \<Rightarrow> pyval list \<Rightarrow> exn option \<times> variables" where
  "save_bytes io vars i [] = (None, vars)"
| "save_bytes io vars i (byteVal # rest) =
     (if (redirect io = Some FILE_WRITE \<or> redirect io = Some FILE_ADD) \<and> outputFileName io \<noteq> None then
        (case byteVal of
           PBytes b \<Rightarrow> save_bytes io vars (Suc i) rest
         | _ \<Rightarrow> (Some TypeError, vars))
      else if (redirect io = Some VAR_WRITE \<or> redirect io = Some VAR_ADD) \<and> outputVarName io \<noteq> None then
        (let varName = (if i = 0 then the (outputVarName io)
                        else the (outputVarName io) @ ''_'' @ str_of_nat i) in
         if redirect io = Some VAR_WRITE then
           save_bytes io (vars(varName \<mapsto> Same byteVal)) (Suc i) rest
         else
           (case vars varName of
              None \<Rightarrow> save_bytes io (vars(varName \<mapsto> Same byteVal)) (Suc i) rest
            | Some e \<Rightarrow>
               (case py_iadd e byteVal of
                  Inl ex \<Rightarrow> (Some ex, vars)
                | Inr e' \<Rightarrow> save_bytes io (vars(varName \<mapsto> e')) (Suc i) rest)))
      else save_bytes io vars (Suc i) rest)"

text \<open>
  \<^verbatim>\<open>log_output\<close> (lines 4759 to 4844) as far as it touches \<^verbatim>\<open>self.variables\<close>: the
  result is the exception that left it, if any, and the variables after it. Bytes are
  decoded as latin-1, that is, character by character. With a logging file set, line
  4790 writes a \<^verbatim>\<open>str\<close> to a file opened with \<^verbatim>\<open>"ab"\<close>. Printing to the terminal
  (lines 4821 to 4844) changes no variable and is left out.
\<close>

definition log_output ::
  "io \<Rightarrow> variables \<Rightarrow> pyval \<Rightarrow> pyval list option \<Rightarrow> bool \<Rightarrow> exn option \<times> variables" where
  "log_output io vars output bytesToSave bytesOutput =
    (case (case output of PBytes b \<Rightarrow> Some b | PStr s \<Rightarrow> Some s | _ \<Rightarrow> None) of
       None \<Rightarrow> (Some AttributeError, vars)
     | Some out \<Rightarrow>
        (let niceOutput = nice_output io out bytesOutput in
         if loggingFile io \<noteq> None then (Some TypeError, vars)
         else if redirect io \<noteq> None then
           save_bytes io vars 0 (case bytesToSave of None \<Rightarrow> [PStr niceOutput] | Some bs \<Rightarrow> bs)
         else (None, vars)))"

text \<open>A command logging a message: the event, and what \<^verbatim>\<open>log_output\<close> does to the variables.\<close>

definition log_msg :: "io \<Rightarrow> variables \<Rightarrow> string \<Rightarrow> event list \<times> variables" where
  "log_msg io vars m =
    (case log_output io vars (PStr m) None False of
       (None, vars') \<Rightarrow> ([Log m], vars')
     | (Some ex, vars') \<Rightarrow> ([Log m, Raised ex], vars'))"

section \<open>Console variables\<close>

text \<open>\<^verbatim>\<open>PDFConsole.__init__\<close>, lines 169 to 176.\<close>

definition init_variables :: "pyval \<Rightarrow> variables" where
  "init_variables vtKey =
     [''output_limit'' \<mapsto> Same (PInt 500),
      ''malformed_options'' \<mapsto> Two (PList []) (PList []),
      ''header_file'' \<mapsto> Same PNone,
      ''vt_key'' \<mapsto> Same vtKey]"

definition readOnlyVariables :: "string list" where
  "readOnlyVariables = [''malformed_options'', ''header_file'']"

definition msg_read_only :: string where
  "msg_read_only = ''[!] Error: This is a READ ONLY variable''"

definition msg_must_be_int :: string where
  "msg_must_be_int = ''[!] Error: The value for this variable must be an integer''"

text \<open>
  \<^verbatim>\<open>do_set\<close>, lines 3877 to 3923. Without arguments the variables are printed. With two,
  the read-only test comes first; on success nothing is logged.
\<close>

definition do_set :: "io \<Rightarrow> variables \<Rightarrow> string list option \<Rightarrow> event list \<times> variables" where
  "do_set io vars args =
    (case args of
       None \<Rightarrow> log_msg io vars msg_not_parsed
     | Some args \<Rightarrow>
        if length args \<noteq> 0 \<and> length args \<noteq> 2 then ([HelpShown], vars)
        else if length args = 0 then ([Printed], vars)
        else
          (let varName = args ! 0; value = args ! 1 in
           if varName \<in> set readOnlyVariables then log_msg io vars msg_read_only
           else if varName = ''output_limit'' \<and> \<not> isdigit value then log_msg io vars msg_must_be_int
           else
             (let v = (if varName = ''output_limit'' then PInt (int (int_of_str value))
                       else PStr value) in
              case vars varName of
                Some e \<Rightarrow> ([], vars(varName \<mapsto> set_slot0 e v))
              | None \<Rightarrow> ([], vars(varName \<mapsto> Same v)))))"

section \<open>The malformed_output command\<close>

text \<open>
  How the loop of \<^verbatim>\<open>do_malformed_output\<close> (lines 2895 to 2919) ends: by
  \<^verbatim>\<open>help_malformed_output(); return False\<close>, or with the options and the header file
  that are then stored.
\<close>

datatype mo_result = Fail | Done "nat list" "string option"

text \<open>
  One round per argument, with \<^verbatim>\<open>malformedOptions\<close> as accumulator. A \<^verbatim>\<open>0\<close> empties
  the options and leaves the loop; a name of an existing file becomes the header file
  and leaves the loop; a number above 6 and a name of no file end the command.
\<close>

fun mo_loop :: "(string \<Rightarrow> bool) \<Rightarrow> string list \<Rightarrow> nat list \<Rightarrow> mo_result" where
  "mo_loop ex [] malformedOptions = Done malformedOptions None"
| "mo_loop ex (opt # rest) malformedOptions =
     (if isdigit opt then
        (if int_of_str opt < 7 then
           (if int_of_str opt = 0 then Done [] None
            else if int_of_str opt \<notin> set malformedOptions \<and> 1 \<notin> set malformedOptions then
              mo_loop ex rest (malformedOptions @ [int_of_str opt])
            else mo_loop ex rest malformedOptions)
         else Fail)
      else if ex opt then Done malformedOptions (Some opt)
      else Fail)"

definition msg_malformed_ok :: string where
  "msg_malformed_ok = ''Malformed options successfully enabled''"

definition pylist_of_nats :: "nat list \<Rightarrow> pyval" where
  "pylist_of_nats ns = PList (map (\<lambda>n. PInt (int n)) ns)"

definition pyval_of_opt :: "string option \<Rightarrow> pyval" where
  "pyval_of_opt x = (case x of None \<Rightarrow> PNone | Some s \<Rightarrow> PStr s)"

text \<open>The two assignments of lines 2920 and 2921.\<close>

definition store_malformed :: "variables \<Rightarrow> nat list \<Rightarrow> string option \<Rightarrow> variables" where
  "store_malformed vars malformedOptions headerFile =
     vars(''malformed_options'' \<mapsto> Same (pylist_of_nats malformedOptions),
          ''header_file'' \<mapsto> Same (pyval_of_opt headerFile))"

text \<open>\<^verbatim>\<open>do_malformed_output\<close>, lines 2884 to 2923.\<close>

definition do_malformed_output ::
  "(string \<Rightarrow> bool) \<Rightarrow> io \<Rightarrow> variables \<Rightarrow> string list option \<Rightarrow> event list \<times> variables" where
  "do_malformed_output ex io vars args =
    (case args of
       None \<Rightarrow> log_msg io vars msg_not_parsed
     | Some args \<Rightarrow>
        (case (if length args = 0 then Done [1] None else mo_loop ex args []) of
           Fail \<Rightarrow> ([HelpShown], vars)
         | Done malformedOptions headerFile \<Rightarrow>
             log_msg io (store_malformed vars malformedOptions headerFile) msg_malformed_ok))"

text \<open>A run with no redirection, no logging file and no colours.\<close>

definition plain_io :: io where
  "plain_io = \<lparr>redirect = None, outputVarName = None, outputFileName = None, loggingFile = None,
     errorColor = [], resetColor = [], newLine = [CHR 0x0A], printResult = (\<lambda>s. s)\<rparr>"

section \<open>The document operations\<close>

text \<open>
  The console calls the document model of \<^verbatim>\<open>PDFCore\<close>, which is not part of this
  development. Its operations are parameters, as the functions of \<open>world\<close> are: \<open>'p\<close>
  is the type of documents (\<^verbatim>\<open>PDFFile\<close>), \<open>'o\<close> the type of objects. An operation that
  changes its receiver returns the changed one; a return value \<^verbatim>\<open>(-1, error)\<close> is
  \<open>Inl error\<close>.
\<close>

datatype pdfelem = PDFName string | PDFArray "pdfelem list"

text \<open>
  What \<^verbatim>\<open>PDFParser.parse\<close> returns, as \<^verbatim>\<open>do_open\<close> looks at it: the value \<^verbatim>\<open>-1\<close>, or
  anything else, of which the element at index 1 is taken as the document.
\<close>

datatype 'p parse_ret = MinusOne | Ret 'p

record ('p, 'o) core =
  getNumUpdates :: "'p \<Rightarrow> nat"
  getObject :: "'p \<Rightarrow> nat \<Rightarrow> nat option \<Rightarrow> 'o option"
  setObject :: "'p \<Rightarrow> nat \<Rightarrow> 'o \<Rightarrow> nat option \<Rightarrow> string + 'p"
  pdf_save :: "'p \<Rightarrow> string \<Rightarrow> nat option \<Rightarrow> pyval \<Rightarrow> pyval \<Rightarrow> string + unit"
  pdf_replace :: "'p \<Rightarrow> string \<Rightarrow> string \<Rightarrow> string + 'p"
  parse :: "string \<Rightarrow> bool \<Rightarrow> bool \<Rightarrow> 'p parse_ret"
  getType :: "'o \<Rightarrow> string"
  getStream :: "'o \<Rightarrow> pyval"
  getValue :: "'o \<Rightarrow> string"
  getRawValue :: "'o \<Rightarrow> string"
  getErrors :: "'o \<Rightarrow> string list"
  hasElement :: "'o \<Rightarrow> string \<Rightarrow> bool"
  elementValue :: "'o \<Rightarrow> string \<Rightarrow> string"
  setElement :: "'o \<Rightarrow> string \<Rightarrow> pdfelem \<Rightarrow> string + 'o"
  delElement :: "'o \<Rightarrow> string \<Rightarrow> string + 'o"

section \<open>The save command\<close>

text \<open>
  \<^verbatim>\<open>do_save\<close>, lines 3615 to 3642: the stored malformed options and header file are
  read from slot 0 of their variables and passed to \<^verbatim>\<open>PDFFile.save\<close>.
\<close>

definition do_save ::
  "'p world \<Rightarrow> ('p, 'o) core \<Rightarrow> io \<Rightarrow> 'p option \<Rightarrow> variables \<Rightarrow> string list option \<Rightarrow>
     event list \<times> variables" where
  "do_save w c io pdfFile vars args =
    (case pdfFile of
       None \<Rightarrow> log_msg io vars msg_must_open
     | Some p \<Rightarrow>
        (case args of
           None \<Rightarrow> log_msg io vars msg_not_parsed
         | Some args \<Rightarrow>
            if length args = 0 \<or> length args = 1 then
              (let fileName = (if length args = 0 then getPath w p else args ! 0) in
               case vars ''malformed_options'' of
                 None \<Rightarrow> ([Raised KeyError], vars)
               | Some mo \<Rightarrow>
                  (case vars ''header_file'' of
                     None \<Rightarrow> ([Raised KeyError], vars)
                   | Some hf \<Rightarrow>
                      (case pdf_save c p fileName None (slot0 mo) (slot0 hf) of
                         Inl err \<Rightarrow> log_msg io vars ''[!] Error: Saving failed''
                       | Inr u \<Rightarrow> log_msg io vars ''[+] File saved succesfully'')))
            else ([HelpShown], vars)))"

text \<open>Helpers for stating what \<^verbatim>\<open>do_malformed_output\<close> accepts.\<close>

definition opt_in :: "nat \<Rightarrow> nat \<Rightarrow> string \<Rightarrow> bool" where
  "opt_in lo hi s = (isdigit s \<and> lo \<le> int_of_str s \<and> int_of_str s \<le> hi)"

definition mo_add :: "nat list \<Rightarrow> nat \<Rightarrow> nat list" where
  "mo_add opts n = (if n \<notin> set opts \<and> 1 \<notin> set opts then opts @ [n] else opts)"

definition no_file :: "string \<Rightarrow> bool" where
  "no_file f = False"

text \<open>A document model for concrete runs: one version, no objects, every operation succeeds.\<close>

definition test_core :: "(unit, unit) core" where
  "test_core =
    \<lparr>getNumUpdates = (\<lambda>p. 0), getObject = (\<lambda>p i v. None),
     setObject = (\<lambda>p i ob v. Inr p), pdf_save = (\<lambda>p f v mo hf. Inr ()),
     pdf_replace = (\<lambda>p s1 s2. Inr p), parse = (\<lambda>f force loose. MinusOne),
     getType = (\<lambda>ob. ''stream''), getStream = (\<lambda>ob. PStr ''data''),
     getValue = (\<lambda>ob. []), getRawValue = (\<lambda>ob. []), getErrors = (\<lambda>ob. []),
     hasElement = (\<lambda>ob n. True), elementValue = (\<lambda>ob n. []),
     setElement = (\<lambda>ob n e. Inr ob), delElement = (\<lambda>ob n. Inr ob)\<rparr>"

section \<open>The replace command\<close>

text \<open>
  The method calls \<^verbatim>\<open>v.find(s)\<close> and \<^verbatim>\<open>v.replace(s1, s2)\<close> with \<^verbatim>\<open>str\<close> arguments,
  on a value of any type: a \<^verbatim>\<open>str\<close> answers; a \<^verbatim>\<open>bytes\<close> raises \<^verbatim>\<open>TypeError\<close>
  (its methods take bytes); an \<^verbatim>\<open>int\<close>, \<^verbatim>\<open>None\<close> and a list have no such method.
\<close>

fun find_method :: "pyval \<Rightarrow> string \<Rightarrow> exn + nat option" where
  "find_method (PStr s) sub = Inr (py_find s sub)"
| "find_method (PBytes b) sub = Inl TypeError"
| "find_method (PInt i) sub = Inl AttributeError"
| "find_method PNone sub = Inl AttributeError"
| "find_method (PList xs) sub = Inl AttributeError"

fun replace_method :: "pyval \<Rightarrow> string \<Rightarrow> string \<Rightarrow> exn + pyval" where
  "replace_method (PStr s) old new = Inr (PStr (py_replace s old new))"
| "replace_method (PBytes b) old new = Inl TypeError"
| "replace_method (PInt i) old new = Inl AttributeError"
| "replace_method PNone old new = Inl AttributeError"
| "replace_method (PList xs) old new = Inl AttributeError"

definition msg_replaced :: string where
  "msg_replaced = ''[+] The string has been replaced correctly''"

definition msg_not_found :: string where
  "msg_not_found = ''String not found''"

definition msg_not_replaced :: string where
  "msg_not_replaced = ''[!] Error: The string has not been replaced''"

definition msg_cannot_modify :: string where
  "msg_cannot_modify = ''[!] Error: The file cannot be modified''"

text \<open>The state a command leaves: its events, the variables, and the open document.\<close>

definition with_pdf :: "'p option \<Rightarrow> event list \<times> variables \<Rightarrow> event list \<times> variables \<times> 'p option" where
  "with_pdf pdfFile r = (fst r, snd r, pdfFile)"

text \<open>
  Lines 3540 to 3556, \<^verbatim>\<open>replace file\<close>: the content is what \<^verbatim>\<open>open(src, "rb").read()\<close>
  returns, the two strings are command arguments. The write to the file is inside
  \<^verbatim>\<open>try\<close>; a file opened with \<^verbatim>\<open>"wb"\<close> takes bytes.
\<close>

definition replace_in_file ::
  "'p world \<Rightarrow> io \<Rightarrow> variables \<Rightarrow> string \<Rightarrow> string \<Rightarrow> string \<Rightarrow> event list \<times> variables" where
  "replace_in_file w io vars src string1 string2 =
    (if \<not> path_exists w src then log_msg io vars msg_file_not_exist
     else
       (let content = PBytes (read_file w src) in
        case find_method content string1 of
          Inl ex \<Rightarrow> ([Raised ex], vars)
        | Inr None \<Rightarrow> log_msg io vars msg_not_found
        | Inr (Some i) \<Rightarrow>
           (case replace_method content string1 string2 of
              Inl ex \<Rightarrow> ([Raised ex], vars)
            | Inr replaceOutput \<Rightarrow>
               (case replaceOutput of
                  PBytes b \<Rightarrow>
                    (Wrote src replaceOutput # fst (log_msg io vars msg_replaced),
                     snd (log_msg io vars msg_replaced))
                | _ \<Rightarrow> log_msg io vars msg_cannot_modify))))"

text \<open>Lines 3558 to 3566, \<^verbatim>\<open>replace variable\<close>: slot 0 of the variable is searched and set.\<close>

definition replace_in_variable ::
  "io \<Rightarrow> variables \<Rightarrow> string \<Rightarrow> string \<Rightarrow> string \<Rightarrow> event list \<times> variables" where
  "replace_in_variable io vars src string1 string2 =
    (case vars src of
       None \<Rightarrow> log_msg io vars msg_var_not_exist
     | Some e \<Rightarrow>
        (case find_method (slot0 e) string1 of
           Inl ex \<Rightarrow> ([Raised ex], vars)
         | Inr None \<Rightarrow> log_msg io vars msg_not_found
         | Inr (Some i) \<Rightarrow>
            (case replace_method (slot0 e) string1 string2 of
               Inl ex \<Rightarrow> ([Raised ex], vars)
             | Inr replaceOutput \<Rightarrow>
                 log_msg io (vars(src \<mapsto> set_slot0 e replaceOutput)) msg_replaced)))"

text \<open>\<^verbatim>\<open>do_replace\<close>, lines 3503 to 3567.\<close>

definition do_replace ::
  "'p world \<Rightarrow> ('p, 'o) core \<Rightarrow> io \<Rightarrow> 'p option \<Rightarrow> variables \<Rightarrow> string list option \<Rightarrow>
     event list \<times> variables \<times> 'p option" where
  "do_replace w c io pdfFile vars args =
    (case args of
       None \<Rightarrow> with_pdf pdfFile (log_msg io vars msg_not_parsed)
     | Some args \<Rightarrow>
        if length args \<noteq> 3 \<and> length args \<noteq> 4 then ([HelpShown], vars, pdfFile)
        else if length args = 3 then
          (if args ! 0 \<noteq> ''all'' then ([HelpShown], vars, pdfFile)
           else
             (case pdfFile of
                None \<Rightarrow> with_pdf pdfFile (log_msg io vars msg_must_open)
              | Some p \<Rightarrow>
                 (case pdf_replace c p (args ! 1) (args ! 2) of
                    Inl err \<Rightarrow>
                      (if err = ''String not found'' then with_pdf pdfFile (log_msg io vars msg_not_found)
                       else with_pdf pdfFile (log_msg io vars msg_not_replaced))
                  | Inr p' \<Rightarrow> with_pdf (Some p') (log_msg io vars msg_replaced))))
        else
          (if args ! 0 \<noteq> ''variable'' \<and> args ! 0 \<noteq> ''file'' then ([HelpShown], vars, pdfFile)
           else if args ! 0 = ''file'' then
             with_pdf pdfFile (replace_in_file w io vars (args ! 1) (args ! 2) (args ! 3))
           else
             with_pdf pdfFile (replace_in_variable io vars (args ! 1) (args ! 2) (args ! 3))))"

definition any_file :: "string \<Rightarrow> bool" where
  "any_file f = True"

definition tmp_h_only :: "string \<Rightarrow> bool" where
  "tmp_h_only f = (f = ''/tmp/h'')"

text \<open>The redirection of a command line that ends in \<^verbatim>\<open>$> header_file\<close>.\<close>

definition to_header_file :: io where
  "to_header_file = plain_io\<lparr>redirect := Some VAR_WRITE, outputVarName := Some ''header_file''\<rparr>"

text \<open>The redirection of a command line that ends in \<^verbatim>\<open>$> malformed_options\<close>.\<close>

definition to_malformed_options :: io where
  "to_malformed_options =
     plain_io\<lparr>redirect := Some VAR_WRITE, outputVarName := Some ''malformed_options''\<rparr>"

text \<open>
  The variables of a console that has run \<^verbatim>\<open>malformed_output 2 /tmp/h\<close> after its start,
  \<^verbatim>\<open>/tmp/h\<close> being a file.
\<close>

definition after_malformed_output :: variables where
  "after_malformed_output =
     snd (do_malformed_output tmp_h_only plain_io (init_variables PNone) (Some [''2'', ''/tmp/h'']))"

section \<open>Commands that take a version argument\<close>

text \<open>
  Each of these commands first reads its arguments, ending with the digits-only tests
  (on failure it shows its help or logs an error), then runs the same three lines,
  \<^verbatim>\<open>version = int(version)\<close>,
  \<^verbatim>\<open>if version > self.pdfFile.getNumUpdates():\<close>, log and return, and only then calls
  into the document. The first phase is one function per command, with the value of the
  local variable \<^verbatim>\<open>version\<close> (a string or \<^verbatim>\<open>None\<close>) and the other locals the
  command goes on with as its result; the second phase is \<open>check_version\<close>.
\<close>

record vparsed =
  version_str :: "string option"
  locals :: "string list"

definition msg_version_not_valid :: string where
  "msg_version_not_valid = ''[!] Error: The version number is not valid''"

definition msg_object_not_found :: string where
  "msg_object_not_found = ''[!] Error: Object not found''"

text \<open>
  The version test. Where no document is open, \<^verbatim>\<open>self.pdfFile.getNumUpdates()\<close> is an
  attribute access on \<^verbatim>\<open>None\<close>.
\<close>

definition check_version ::
  "('p, 'o) core \<Rightarrow> 'p option \<Rightarrow> string option \<Rightarrow> event list + nat option" where
  "check_version c pdfFile version =
    (case version of
       None \<Rightarrow> Inr None
     | Some s \<Rightarrow>
        (case pdfFile of
           None \<Rightarrow> Inl [Raised AttributeError]
         | Some p \<Rightarrow>
            if int_of_str s > getNumUpdates c p then Inl [Log msg_version_not_valid]
            else Inr (Some (int_of_str s))))"

text \<open>
  A command in two phases and a body: the body is what the command does once the version
  is accepted, and it is the only part that calls document operations with the version.
\<close>

definition versioned ::
  "event list + vparsed \<Rightarrow> ('p, 'o) core \<Rightarrow> 'p option \<Rightarrow>
   (nat option \<Rightarrow> string list \<Rightarrow> event list) \<Rightarrow> event list" where
  "versioned a c pdfFile body =
    (case a of
       Inl ev \<Rightarrow> ev
     | Inr pa \<Rightarrow>
        (case check_version c pdfFile (version_str pa) of
           Inl ev \<Rightarrow> ev
         | Inr v \<Rightarrow> body v (locals pa)))"

text \<open>\<^verbatim>\<open>do_changelog\<close>, lines 236 to 255.\<close>

definition changelog_args :: "'p option \<Rightarrow> string list option \<Rightarrow> event list + vparsed" where
  "changelog_args pdfFile args =
    (if pdfFile = None then Inl [Log msg_must_open]
     else case args of
       None \<Rightarrow> Inl [Log msg_not_parsed]
     | Some args \<Rightarrow>
        if length args > 1 then Inl [HelpShown]
        else
          (let version = (if length args = 0 then None else Some (args ! 0)) in
           if version \<noteq> None \<and> \<not> isdigit (the version) then Inl [HelpShown]
           else Inr \<lparr>version_str = version, locals = []\<rparr>))"

text \<open>
  \<^verbatim>\<open>do_create\<close>, lines 324 to 396. The branch \<^verbatim>\<open>create pdf\<close> (lines 335 to 380) makes
  a new document and takes no version; it is the parameter \<open>pdf_branch\<close>.
\<close>

definition create_args ::
  "(string list \<Rightarrow> event list) \<Rightarrow> 'p option \<Rightarrow> string list option \<Rightarrow> event list + vparsed" where
  "create_args pdf_branch pdfFile args =
    (case args of
       None \<Rightarrow> Inl [Log msg_not_parsed, HelpShown]
     | Some [] \<Rightarrow> Inl [Log msg_not_parsed, HelpShown]
     | Some args \<Rightarrow>
        if args ! 0 \<notin> set [''pdf'', ''object_stream''] then Inl [HelpShown]
        else if args ! 0 = ''pdf'' then Inl (pdf_branch args)
        else if pdfFile = None then Inl [Log msg_must_open]
        else if length args > 2 then Inl [HelpShown]
        else
          (let version = (if length args = 2 then Some (args ! 1) else None) in
           if version \<noteq> None \<and> \<not> isdigit (the version) then Inl [HelpShown]
           else Inr \<lparr>version_str = version, locals = []\<rparr>))"

text \<open>
  \<^verbatim>\<open>do_encode_strings\<close>, lines 1073 to 1099 and 1157 to 1159. Without arguments the
  command encodes the whole file and there is no version.
\<close>

definition encode_strings_args :: "'p option \<Rightarrow> string list option \<Rightarrow> event list + vparsed" where
  "encode_strings_args pdfFile args =
    (if pdfFile = None then Inl [Log msg_must_open]
     else case args of
       None \<Rightarrow> Inl [Log msg_not_parsed]
     | Some args \<Rightarrow>
        if length args = 0 then Inr \<lparr>version_str = None, locals = []\<rparr>
        else if length args = 1 \<or> length args = 2 then
          (let version = (if length args = 1 then None else Some (args ! 1));
               ident = args ! 0 in
           if (\<not> isdigit ident \<and> ident \<noteq> ''trailer'') \<or> (version \<noteq> None \<and> \<not> isdigit (the version))
           then Inl [HelpShown]
           else Inr \<lparr>version_str = version, locals = [ident]\<rparr>)
        else Inl [HelpShown])"

text \<open>\<^verbatim>\<open>do_metadata\<close>, lines 2939 to 2958.\<close>

definition metadata_args :: "'p option \<Rightarrow> string list option \<Rightarrow> event list + vparsed" where
  "metadata_args pdfFile args =
    (if pdfFile = None then Inl [Log msg_must_open]
     else case args of
       None \<Rightarrow> Inl [Log msg_not_parsed]
     | Some args \<Rightarrow>
        if length args > 1 then Inl [HelpShown]
        else
          (let version = (if length args = 0 then None else Some (args ! 0)) in
           if version \<noteq> None \<and> \<not> isdigit (the version) then Inl [HelpShown]
           else Inr \<lparr>version_str = version, locals = []\<rparr>))"

text \<open>
  \<^verbatim>\<open>do_modify\<close>, lines 3003 to 3046. The command does not test whether a document is
  open. With three arguments the third is the version unless it names an existing file.
  The locals passed on are the element type, the id and, if given, the content file.
\<close>

definition modify_args :: "'p world \<Rightarrow> string list option \<Rightarrow> event list + vparsed" where
  "modify_args w args =
    (case args of
       None \<Rightarrow> Inl [Log msg_not_parsed]
     | Some args \<Rightarrow>
        if length args < 2 then Inl [HelpShown]
        else if args ! 0 \<notin> set [''object'', ''stream''] then Inl [HelpShown]
        else if length args > 4 then Inl [HelpShown]
        else if length args = 4 \<and> \<not> path_exists w (args ! 3) then
          Inl [Log (''[!] Error: The file \"'' @ args ! 3 @ ''\" does not exist'')]
        else
          (let ident = args ! 1;
               version = (if length args = 2 then None
                          else if length args = 3 then
                            (if \<not> path_exists w (args ! 2) then Some (args ! 2) else None)
                          else Some (args ! 2));
               contentFile = (if length args = 2 then []
                              else if length args = 3 then
                                (if \<not> path_exists w (args ! 2) then [] else [args ! 2])
                              else [args ! 3]) in
           if (\<not> isdigit ident \<and> ident \<noteq> ''trailer'' \<and> ident \<noteq> ''xref'') \<or>
              (version \<noteq> None \<and> \<not> isdigit (the version))
           then Inl [HelpShown]
           else Inr \<lparr>version_str = version, locals = [args ! 0, ident] @ contentFile\<rparr>))"

text \<open>\<^verbatim>\<open>do_object\<close>, lines 3104 to 3123.\<close>

definition object_args :: "'p option \<Rightarrow> string list option \<Rightarrow> event list + vparsed" where
  "object_args pdfFile args =
    (if pdfFile = None then Inl [Log msg_must_open]
     else case args of
       None \<Rightarrow> Inl [Log msg_not_parsed]
     | Some args \<Rightarrow>
        if length args \<noteq> 1 \<and> length args \<noteq> 2 then Inl [HelpShown]
        else
          (let version = (if length args = 1 then None else Some (args ! 1));
               ident = args ! 0 in
           if \<not> isdigit ident \<or> (version \<noteq> None \<and> \<not> isdigit (the version)) then Inl [HelpShown]
           else Inr \<lparr>version_str = version, locals = [ident]\<rparr>))"

text \<open>
  \<^verbatim>\<open>do_offsets\<close>, lines 3173 to 3201. Without arguments the command shows every
  version and there is no version to test.
\<close>

definition offsets_args :: "'p option \<Rightarrow> string list option \<Rightarrow> event list + vparsed" where
  "offsets_args pdfFile args =
    (if pdfFile = None then Inl [Log msg_must_open]
     else case args of
       None \<Rightarrow> Inl [Log msg_not_parsed]
     | Some args \<Rightarrow>
        if length args = 0 then Inr \<lparr>version_str = None, locals = []\<rparr>
        else if length args = 1 then
          (if \<not> isdigit (args ! 0) then Inl [HelpShown]
           else Inr \<lparr>version_str = Some (args ! 0), locals = []\<rparr>)
        else Inl [HelpShown])"

text \<open>\<^verbatim>\<open>do_references\<close>, lines 3455 to 3479.\<close>

definition references_args :: "'p option \<Rightarrow> string list option \<Rightarrow> event list + vparsed" where
  "references_args pdfFile args =
    (if pdfFile = None then Inl [Log msg_must_open]
     else case args of
       None \<Rightarrow> Inl [Log msg_not_parsed]
     | Some args \<Rightarrow>
        if length args \<noteq> 2 \<and> length args \<noteq> 3 then Inl [HelpShown]
        else
          (let version = (if length args = 2 then None else Some (args ! 2));
               command = args ! 0;
               ident = args ! 1 in
           if \<not> isdigit ident \<or> (version \<noteq> None \<and> \<not> isdigit (the version)) \<or>
              (lower command \<noteq> ''to'' \<and> lower command \<noteq> ''in'')
           then Inl [HelpShown]
           else Inr \<lparr>version_str = version, locals = [command, ident]\<rparr>))"

text \<open>
  \<^verbatim>\<open>do_save_version\<close>, lines 3649 to 3664 and 3681 to 3682. Its version test is
  \<^verbatim>\<open>version < 0 or version > self.pdfFile.getNumUpdates()\<close>; the version is the
  \<^verbatim>\<open>int\<close> of a string of digits, so the first disjunct never holds.
\<close>

definition save_version_args :: "'p option \<Rightarrow> string list option \<Rightarrow> event list + vparsed" where
  "save_version_args pdfFile args =
    (if pdfFile = None then Inl [Log msg_must_open]
     else case args of
       None \<Rightarrow> Inl [Log msg_not_parsed]
     | Some args \<Rightarrow>
        if length args = 2 then
          (if \<not> isdigit (args ! 0) then Inl [HelpShown]
           else Inr \<lparr>version_str = Some (args ! 0), locals = [args ! 1]\<rparr>)
        else Inl [HelpShown])"

section \<open>The filters command\<close>

text \<open>\<^verbatim>\<open>do_filters\<close>, lines 1353 to 1363 and 1380 to 1382.\<close>

definition filters_notImplementedFilters :: "string list" where
  "filters_notImplementedFilters =
     [''ascii85'', ''a85'', ''runlength'', ''rl'', ''jbig2'', ''jpx'', ''ccittfax'', ''ccf'', ''dct'']"

definition validFilters :: "string list" where
  "validFilters = remove1 ''base64'' (remove1 ''b64'' (filter_keys @ [''none'']))"

text \<open>Lines 1383 to 1392.\<close>

fun filters_filter_args :: "string list \<Rightarrow> string list \<Rightarrow> event list + string list" where
  "filters_filter_args [] fs = Inr fs"
| "filters_filter_args (a # as) fs =
     (let f = lower a in
      if f \<notin> set validFilters then Inl [HelpShown]
      else if f \<in> set filters_notImplementedFilters then
        Inl [Log (''[!] Error: Filter \"'' @ f @ ''\" not implemented yet'')]
      else filters_filter_args as (fs @ [f]))"

text \<open>
  Lines 1346 to 1397. The second argument is the version exactly when it is a string of
  digits; otherwise it is the first filter. The locals passed on are the id and the
  filters.
\<close>

definition filters_args :: "'p option \<Rightarrow> string list option \<Rightarrow> event list + vparsed" where
  "filters_args pdfFile args =
    (if pdfFile = None then Inl [Log msg_must_open]
     else case args of
       None \<Rightarrow> Inl [Log msg_not_parsed, HelpShown]
     | Some [] \<Rightarrow> Inl [Log msg_not_parsed, HelpShown]
     | Some args \<Rightarrow>
        (let version = (if length args = 1 then None
                        else if isdigit (args ! 1) then Some (args ! 1) else None);
             iniFilterArgs = (if length args \<noteq> 1 \<and> isdigit (args ! 1) then 2 else 1) in
         case (if length args = 1 then Inr [] else filters_filter_args (drop iniFilterArgs args) []) of
           Inl ev \<Rightarrow> Inl ev
         | Inr fs \<Rightarrow>
            if \<not> isdigit (args ! 0) \<or> (version \<noteq> None \<and> \<not> isdigit (the version)) then Inl [HelpShown]
            else Inr \<lparr>version_str = version, locals = args ! 0 # fs\<rparr>))"

text \<open>
  Lines 1443 to 1447: \<^verbatim>\<open>"none"\<close> is removed, one occurrence at a time, until none is
  left.
\<close>

function remove_nones :: "string list \<Rightarrow> string list" where
  "remove_nones fs = (if ''none'' \<in> set fs then remove_nones (remove1 ''none'' fs) else fs)"
  by pat_completeness auto
termination
  by (relation "measure length") (auto simp: length_remove1 dest: length_pos_if_in_set)

declare remove_nones.simps [simp del]

text \<open>
  Lines 1449 and 1450: a name object for each filter; a name that is not a key of the
  dictionary raises \<^verbatim>\<open>KeyError\<close>.
\<close>

fun pdf_names :: "string list \<Rightarrow> pdfelem list option" where
  "pdf_names [] = Some []"
| "pdf_names (f # fs) =
     (case map_of filter2RealFilterDict f of
        None \<Rightarrow> None
      | Some r \<Rightarrow> map_option (\<lambda>ns. PDFName r # ns) (pdf_names fs))"

datatype 'o update = Updated 'o | UpdateError string | UpdateRaised exn

definition of_ret :: "string + 'o \<Rightarrow> 'o update" where
  "of_ret r = (case r of Inl err \<Rightarrow> UpdateError err | Inr ob \<Rightarrow> Updated ob)"

text \<open>
  Lines 1432 to 1457: what is done to the \<^verbatim>\<open>/Filter\<close> entry of the object, for a
  non-empty list of filters.
\<close>

definition filter_update :: "('p, 'o) core \<Rightarrow> 'o \<Rightarrow> string list \<Rightarrow> 'o update" where
  "filter_update c ob fs =
    (if length fs = 1 then
       (if fs ! 0 = ''none'' then of_ret (delElement c ob ''/Filter'')
        else
          (case map_of filter2RealFilterDict (fs ! 0) of
             None \<Rightarrow> UpdateRaised KeyError
           | Some r \<Rightarrow> of_ret (setElement c ob ''/Filter'' (PDFName r))))
     else
       (case pdf_names (rev (remove_nones fs)) of
          None \<Rightarrow> UpdateRaised KeyError
        | Some filtersArray \<Rightarrow>
           if filtersArray \<noteq> [] then of_ret (setElement c ob ''/Filter'' (PDFArray filtersArray))
           else Updated ob))"

text \<open>
  Lines 1398 and 1406 to 1467: the command once the version is accepted. The result is
  the events and the document; the document changes by \<^verbatim>\<open>setObject\<close>.
\<close>

definition filters_body ::
  "('p, 'o) core \<Rightarrow> io \<Rightarrow> 'p \<Rightarrow> nat option \<Rightarrow> string list \<Rightarrow> event list \<times> 'p" where
  "filters_body c io p version ls =
    (let ident = int_of_str (hd ls); fs = tl ls in
     case getObject c p ident version of
       None \<Rightarrow> ([Log msg_object_not_found], p)
     | Some ob \<Rightarrow>
        if getType c ob \<noteq> ''stream'' then
          ([Log ''[!] Error: The object doesn't contain any streams''], p)
        else if fs = [] then
          (if hasElement c ob ''/Filter'' then
             ([LogBytes (PStr (elementValue c ob ''/Filter'' @
                 (if hasElement c ob ''/DecodeParms'' then '' '' @ elementValue c ob ''/DecodeParms''
                  else [])))], p)
           else ([Log ''[!] Warning: No filters found in the object''], p))
        else if getStream c ob = PInt (- 1) \<or> getStream c ob = PStr [] then
          ([Log ''[!] Error: The stream cannot be decoded''], p)
        else
          (case filter_update c ob fs of
             UpdateRaised ex \<Rightarrow> ([Raised ex], p)
           | UpdateError err \<Rightarrow> ([Log (''[!] Error: '' @ err)], p)
           | Updated ob' \<Rightarrow>
              (case setObject c p ident ob' version of
                 Inl err \<Rightarrow> ([Log (''[!] Error: '' @ err)], p)
               | Inr p' \<Rightarrow>
                  ([LogBytes (PStr
                     ((if getErrors c ob' \<noteq> getErrors c ob then
                         ''[!] Warning: Some errors found in the modification process '' @ newLine io
                       else []) @ getRawValue c ob'))], p'))))"

definition do_filters ::
  "('p, 'o) core \<Rightarrow> io \<Rightarrow> 'p option \<Rightarrow> string list option \<Rightarrow> event list \<times> 'p option" where
  "do_filters c io pdfFile args =
    (case filters_args pdfFile args of
       Inl ev \<Rightarrow> (ev, pdfFile)
     | Inr pa \<Rightarrow>
        (case check_version c pdfFile (version_str pa) of
           Inl ev \<Rightarrow> (ev, pdfFile)
         | Inr v \<Rightarrow>
            (case pdfFile of
               None \<Rightarrow> ([Raised AttributeError], None)
             | Some p \<Rightarrow> (fst (filters_body c io p v (locals pa)),
                           Some (snd (filters_body c io p v (locals pa)))))))"

text \<open>The name of the real filter, for stating what is written.\<close>

definition real_filter :: "string \<Rightarrow> string" where
  "real_filter f = (case map_of filter2RealFilterDict f of None \<Rightarrow> [] | Some r \<Rightarrow> r)"

section \<open>The object, modify and open commands\<close>

text \<open>\<^verbatim>\<open>do_object\<close>, lines 3124 and 3131 to 3137, once the version is accepted.\<close>

definition object_body :: "('p, 'o) core \<Rightarrow> 'p option \<Rightarrow> nat option \<Rightarrow> string list \<Rightarrow> event list" where
  "object_body c pdfFile version ls =
    (case pdfFile of
       None \<Rightarrow> [Raised AttributeError]
     | Some p \<Rightarrow>
        (case getObject c p (int_of_str (hd ls)) version of
           None \<Rightarrow> [Log msg_object_not_found]
         | Some ob \<Rightarrow> [Log (getValue c ob)]))"

definition do_object :: "('p, 'o) core \<Rightarrow> 'p option \<Rightarrow> string list option \<Rightarrow> event list" where
  "do_object c pdfFile args = versioned (object_args pdfFile args) c pdfFile (object_body c pdfFile)"

text \<open>
  \<^verbatim>\<open>do_modify\<close>: after the version test, line 3054 is \<^verbatim>\<open>id = int(id)\<close> and line 3055
  is \<^verbatim>\<open>object = self.pdfFile.getObject(id, version)\<close>. What follows (lines 3056 to
  3095, the dialogue with the user and \<^verbatim>\<open>setObject\<close>) is the parameter \<open>body\<close>.
\<close>

definition do_modify ::
  "'p world \<Rightarrow> ('p, 'o) core \<Rightarrow> 'p option \<Rightarrow> string list option \<Rightarrow>
   ('p \<Rightarrow> nat option \<Rightarrow> string list \<Rightarrow> event list) \<Rightarrow> event list" where
  "do_modify w c pdfFile args body =
     versioned (modify_args w args) c pdfFile
       (\<lambda>version ls.
          if \<not> isdigit (ls ! 1) then [Raised ValueError]
          else case pdfFile of
                 None \<Rightarrow> [Raised AttributeError]
               | Some p \<Rightarrow> body p version ls)"

text \<open>
  \<^verbatim>\<open>do_open\<close>, lines 3251 to 3300. The result is the events and the value of
  \<^verbatim>\<open>self.pdfFile\<close>. \<open>js_module\<close> is the module constant \<^verbatim>\<open>JS_MODULE\<close>; \<open>info\<close>
  stands for the call \<^verbatim>\<open>self.do_info("")\<close>.
\<close>

definition open_flags_ok :: "string \<Rightarrow> bool" where
  "open_flags_ok a =
     (\<not> (length a < 2 \<or> length a > 3 \<or> a ! 0 \<noteq> CHR ''-'' \<or> drop 1 a \<notin> set [''f'', ''l'', ''fl'', ''lf'']))"

definition do_open ::
  "'p world \<Rightarrow> ('p, 'o) core \<Rightarrow> bool \<Rightarrow> ('p \<Rightarrow> event list) \<Rightarrow> 'p option \<Rightarrow> string list option \<Rightarrow>
     event list \<times> 'p option" where
  "do_open w c js_module info pdfFile args =
    (case args of
       None \<Rightarrow> ([Log msg_not_parsed], pdfFile)
     | Some args \<Rightarrow>
        if length args \<noteq> 1 \<and> length args \<noteq> 2 then ([HelpShown], pdfFile)
        else if length args = 2 \<and> \<not> open_flags_ok (args ! 0) then ([HelpShown], pdfFile)
        else
          (let fileName = (if length args = 1 then args ! 0 else args ! 1);
               forceMode = (length args = 2 \<and> py_find (args ! 0) ''f'' \<noteq> None);
               looseMode = (length args = 2 \<and> py_find (args ! 0) ''l'' \<noteq> None) in
           if \<not> path_exists w fileName then ([Log msg_file_not_exist], pdfFile)
           else
             (case parse c fileName forceMode looseMode of
                Ret p \<Rightarrow>
                  ([Log ''[+] File opened succesfully''] @ (if js_module then [] else [Printed]) @ info p,
                   Some p)
              | MinusOne \<Rightarrow>
                  ([Log ''[!] Error: Opening document failed''] @ (if js_module then [] else [Printed]),
                   None))))"

definition parse_fails :: "string \<Rightarrow> bool \<Rightarrow> bool \<Rightarrow> 'p parse_ret" where
  "parse_fails f force loose = MinusOne"

section \<open>The ten commands of the version claim\<close>

datatype vcommand =
  Changelog | Create_object_stream | Encode_strings | Metadata | Modify | Object | Offsets
  | Filters | References | Save_version

text \<open>The first phase of each.\<close>

fun args_phase ::
  "vcommand \<Rightarrow> 'p world \<Rightarrow> (string list \<Rightarrow> event list) \<Rightarrow> 'p option \<Rightarrow> string list option \<Rightarrow>
     event list + vparsed" where
  "args_phase Changelog w pb pdfFile args = changelog_args pdfFile args"
| "args_phase Create_object_stream w pb pdfFile args = create_args pb pdfFile args"
| "args_phase Encode_strings w pb pdfFile args = encode_strings_args pdfFile args"
| "args_phase Metadata w pb pdfFile args = metadata_args pdfFile args"
| "args_phase Modify w pb pdfFile args = modify_args w args"
| "args_phase Object w pb pdfFile args = object_args pdfFile args"
| "args_phase Offsets w pb pdfFile args = offsets_args pdfFile args"
| "args_phase Filters w pb pdfFile args = filters_args pdfFile args"
| "args_phase References w pb pdfFile args = references_args pdfFile args"
| "args_phase Save_version w pb pdfFile args = save_version_args pdfFile args"

text \<open>The command: first phase, version test, body.\<close>

definition run_command ::
  "vcommand \<Rightarrow> 'p world \<Rightarrow> ('p, 'o) core \<Rightarrow> (string list \<Rightarrow> event list) \<Rightarrow> 'p option \<Rightarrow>
   string list option \<Rightarrow> (nat option \<Rightarrow> string list \<Rightarrow> event list) \<Rightarrow> event list" where
  "run_command cmd w c pb pdfFile args body = versioned (args_phase cmd w pb pdfFile args) c pdfFile body"

text \<open>Documents and objects for concrete runs: a document is its number of updates.\<close>

definition nat_core :: "(nat, unit) core" where
  "nat_core =
    \<lparr>getNumUpdates = (\<lambda>p. p), getObject = (\<lambda>p i v. Some ()),
     setObject = (\<lambda>p i ob v. Inr p), pdf_save = (\<lambda>p f v mo hf. Inr ()),
     pdf_replace = (\<lambda>p s1 s2. Inr p), parse = (\<lambda>f force loose. MinusOne),
     getType = (\<lambda>ob. ''stream''), getStream = (\<lambda>ob. PStr ''data''),
     getValue = (\<lambda>ob. ''value''), getRawValue = (\<lambda>ob. []), getErrors = (\<lambda>ob. []),
     hasElement = (\<lambda>ob n. True), elementValue = (\<lambda>ob n. []),
     setElement = (\<lambda>ob n e. Inr ob), delElement = (\<lambda>ob n. Inr ob)\<rparr>"

definition nat_world :: "nat world" where
  "nat_world =
    \<lparr>path_exists = (\<lambda>f. False), read_file = (\<lambda>f. []), getPath = (\<lambda>p. ''doc.pdf''),
     getBytesFromFile = (\<lambda>f off n. Inl ''no file''),
     b64decode = (\<lambda>c. Inr c), b64encode = (\<lambda>c. Inr c),
     decodeStream = (\<lambda>c f. Inl ''decoding error''),
     encodeStream = (\<lambda>c f. Inl ''encoding error'')\<rparr>"

definition no_events :: "string list \<Rightarrow> event list" where
  "no_events args = []"

definition echo_body :: "nat option \<Rightarrow> string list \<Rightarrow> event list" where
  "echo_body version ls = [Printed]"

text \<open>
  Stream objects for concrete runs: an object is the list of its dictionary entries, a
  document is its one object.
\<close>

definition dict_core :: "((string \<times> pdfelem) list, (string \<times> pdfelem) list) core" where
  "dict_core =
    \<lparr>getNumUpdates = (\<lambda>p. 0), getObject = (\<lambda>p i v. Some p),
     setObject = (\<lambda>p i ob v. Inr ob), pdf_save = (\<lambda>p f v mo hf. Inr ()),
     pdf_replace = (\<lambda>p s1 s2. Inr p), parse = (\<lambda>f force loose. MinusOne),
     getType = (\<lambda>ob. ''stream''), getStream = (\<lambda>ob. PStr ''data''),
     getValue = (\<lambda>ob. []), getRawValue = (\<lambda>ob. []), getErrors = (\<lambda>ob. []),
     hasElement = (\<lambda>ob n. map_of ob n \<noteq> None), elementValue = (\<lambda>ob n. []),
     setElement = (\<lambda>ob n e. Inr ((n, e) # filter (\<lambda>x. fst x \<noteq> n) ob)),
     delElement = (\<lambda>ob n. Inr (filter (\<lambda>x. fst x \<noteq> n) ob))\<rparr>"

text \<open>
  The version argument of each command, as its usage line gives it:
  \<^verbatim>\<open>changelog [$version]\<close>, \<^verbatim>\<open>create object_stream [$version]\<close>,
  \<^verbatim>\<open>encode_strings [$object_id|trailer [$version]]\<close>, \<^verbatim>\<open>metadata [$version]\<close>,
  \<^verbatim>\<open>modify object|stream $object_id [$version] [$file]\<close>,
  \<^verbatim>\<open>object $object_id [$version]\<close>, \<^verbatim>\<open>offsets [$version]\<close>,
  \<^verbatim>\<open>filters $object_id [$version] [$filter1 [$filter2 ...]]\<close>,
  \<^verbatim>\<open>references to|in $object_id [$version]\<close>, \<^verbatim>\<open>save_version $version $file_name\<close>.
  For \<^verbatim>\<open>modify\<close> a third argument that names an existing file is the file; for
  \<^verbatim>\<open>filters\<close> a second argument that is not a number is the first filter.
\<close>

fun version_argument :: "vcommand \<Rightarrow> 'p world \<Rightarrow> string list \<Rightarrow> string option" where
  "version_argument Changelog w args = (if length args = 1 then Some (args ! 0) else None)"
| "version_argument Create_object_stream w args =
     (if length args = 2 \<and> args ! 0 = ''object_stream'' then Some (args ! 1) else None)"
| "version_argument Encode_strings w args = (if length args = 2 then Some (args ! 1) else None)"
| "version_argument Metadata w args = (if length args = 1 then Some (args ! 0) else None)"
| "version_argument Modify w args =
     (if length args = 4 \<or> (length args = 3 \<and> \<not> path_exists w (args ! 2)) then Some (args ! 2)
      else None)"
| "version_argument Object w args = (if length args = 2 then Some (args ! 1) else None)"
| "version_argument Offsets w args = (if length args = 1 then Some (args ! 0) else None)"
| "version_argument Filters w args =
     (if length args \<ge> 2 \<and> isdigit (args ! 1) then Some (args ! 1) else None)"
| "version_argument References w args = (if length args = 3 then Some (args ! 2) else None)"
| "version_argument Save_version w args = (if length args = 2 then Some (args ! 0) else None)"

section \<open>Building and modifying objects in dialogue with the user\<close>





































section \<open>Helper facts\<close>

lemma lower_ccf: "lower ''ccf'' = ''ccf''"
  by (simp add: lower_def lower_char_def)

lemma ccf_is_key: "''ccf'' \<in> set filter_keys"
  by (simp add: filter_keys_def filter2RealFilterDict_def)

lemma ccf_not_listed: "''ccf'' \<notin> set decode_notImplementedFilters"
  by (simp add: decode_notImplementedFilters_def)

lemma ccf_real: "map_of filter2RealFilterDict ''ccf'' = Some ''/CCITTFaxDecode''"
  by (simp add: filter2RealFilterDict_def)

lemma foldl_chain_Inl:
  "foldl (\<lambda>acc step. case acc of Inl err \<Rightarrow> Inl err | Inr x \<Rightarrow> step x) (Inl e) steps = Inl e"
  by (induction steps) simp_all

lemma chain_spec_Nil: "chain_spec [] c = Inr c"
  by (simp add: chain_spec_def)

lemma chain_spec_Cons:
  "chain_spec (s # steps) c = (case s c of Inl err \<Rightarrow> Inl err | Inr x \<Rightarrow> chain_spec steps x)"
  by (simp add: chain_spec_def foldl_chain_Inl split: sum.splits)

lemma decode_filter_args_result:
  "decode_filter_args as fs = Inr fs' \<Longrightarrow>
     fs' = fs @ map lower as \<and> set (map lower as) \<subseteq> set filter_keys"
proof (induction as arbitrary: fs)
  case Nil
  then show ?case by simp
next
  case (Cons a as)
  from Cons.prems have k: "lower a \<in> set filter_keys"
    and r: "decode_filter_args as (fs @ [lower a]) = Inr fs'"
    by (auto simp: Let_def split: if_splits)
  from Cons.IH [OF r] k show ?case by simp
qed

lemma decode_loop_chain:
  "set fs \<subseteq> set filter_keys \<Longrightarrow>
   decode_loop w fs c =
     (case chain_spec (map (decode_step w) fs) c of
        Inl err \<Rightarrow> [Log (''[!] Error: '' @ err)]
      | Inr y \<Rightarrow> [LogBytes y])"
proof (induction fs arbitrary: c)
  case Nil
  then show ?case by (simp add: chain_spec_Nil)
next
  case (Cons f fs)
  from Cons.prems obtain r where r: "map_of filter2RealFilterDict f = Some r"
    by (auto simp: filter_keys_def dest: weak_map_of_SomeI)
  from Cons.prems have sub: "set fs \<subseteq> set filter_keys" by simp
  show ?case
    by (simp add: r chain_spec_Cons decode_step_def Cons.IH [OF sub] split: sum.splits)
qed

lemma decode_loop_single: "LogBytes y \<in> set (decode_loop w fs c) \<Longrightarrow> decode_loop w fs c = [LogBytes y]"
  by (induction fs arbitrary: c) (auto split: option.splits sum.splits if_splits)

lemma decode_filter_args_no_bytes:
  "decode_filter_args as fs = Inl ev \<Longrightarrow> LogBytes y \<notin> set ev"
  by (induction as arbitrary: fs) (auto simp: Let_def split: if_splits)

lemma decode_args_no_bytes:
  assumes "decode_args pdfFile args = Inl ev"
  shows "LogBytes y \<notin> set ev"
proof (cases args)
  case None
  with assms show ?thesis by (auto simp: decode_args_def)
next
  case (Some as)
  show ?thesis
  proof (cases as)
    case Nil
    with assms Some show ?thesis by (auto simp: decode_args_def)
  next
    case (Cons a as')
    with assms Some show ?thesis
      unfolding decode_args_def
      by (simp split: if_splits sum.splits) (auto dest: decode_filter_args_no_bytes)
  qed
qed

lemma content_guard_no_bytes: "content_guard c = Inl ev \<Longrightarrow> LogBytes y \<notin> set ev"
  by (auto simp: content_guard_def split: if_splits)

lemma decode_content_no_bytes:
  "decode_content w pdfFile vars l = Inl ev \<Longrightarrow> LogBytes y \<notin> set ev"
  unfolding decode_content_def
  by (simp split: if_splits option.splits sum.splits) (auto dest: content_guard_no_bytes)

lemma encode_filter_args_result:
  "encode_filter_args as fs = Inr fs' \<Longrightarrow> fs' = fs @ map lower as"
proof (induction as arbitrary: fs)
  case Nil
  then show ?case by simp
next
  case (Cons a as)
  from Cons.prems have r: "encode_filter_args as (fs @ [lower a]) = Inr fs'"
    by (auto simp: Let_def split: if_splits)
  from Cons.IH [OF r] show ?case by simp
qed

lemma encode_args_raw:
  "encode_args (Some p) (Some (''raw'' # off # nb # fargs)) =
     (if \<not> isdigit off \<or> \<not> isdigit nb then Inl [Log msg_offset_int]
      else case encode_filter_args fargs [] of
             Inl ev \<Rightarrow> Inl ev
           | Inr fs \<Rightarrow> Inr \<lparr>l_srcType = ''raw'', l_src = [], l_offset = int_of_str off,
                           l_size = int_of_str off, l_filters = fs\<rparr>)"
  by (simp add: encode_args_def validTypes_def split: sum.splits)

lemma mo_loop_prefix:
  "list_all (opt_in 1 6) pre \<Longrightarrow>
   mo_loop ex (pre @ rest) acc = mo_loop ex rest (foldl mo_add acc (map int_of_str pre))"
proof (induction pre arbitrary: acc)
  case Nil
  then show ?case by simp
next
  case (Cons a pre)
  from Cons.prems have pre: "list_all (opt_in 1 6) pre" and "opt_in 1 6 a"
    by simp_all
  then have a: "isdigit a" "int_of_str a < 7" "int_of_str a \<noteq> 0"
    by (auto simp: opt_in_def)
  show ?case using a Cons.IH [OF pre] by (simp add: mo_add_def)
qed

lemma foldl_mo_add_fresh:
  "distinct ns \<Longrightarrow> 1 \<notin> set ns \<Longrightarrow> 1 \<notin> set acc \<Longrightarrow> set ns \<inter> set acc = {} \<Longrightarrow>
   foldl mo_add acc ns = acc @ ns"
proof (induction ns arbitrary: acc)
  case Nil
  then show ?case by simp
next
  case (Cons n ns)
  from Cons.prems have step: "mo_add acc n = acc @ [n]" by (auto simp: mo_add_def)
  from Cons.prems have "foldl mo_add (acc @ [n]) ns = (acc @ [n]) @ ns"
    by (intro Cons.IH) auto
  with step show ?case by simp
qed

lemma foldl_mo_add_all: "1 \<in> set acc \<Longrightarrow> foldl mo_add acc ns = acc"
  by (induction ns) (simp_all add: mo_add_def)

lemma mo_add_keeps_one: "1 \<in> set acc \<Longrightarrow> 1 \<in> set (foldl mo_add acc ns)"
  by (simp add: foldl_mo_add_all)

lemma mo_add_one_last: "1 \<in> set (foldl mo_add acc (ns @ [1]))"
  by (induction ns arbitrary: acc) (auto simp: mo_add_def)

lemma save_bytes_no_var:
  "redirect io \<noteq> Some VAR_WRITE \<Longrightarrow> redirect io \<noteq> Some VAR_ADD \<Longrightarrow>
   snd (save_bytes io vars i bs) = vars"
  by (induction bs arbitrary: i) (auto split: pyval.splits)

lemma log_output_no_var:
  "redirect io \<noteq> Some VAR_WRITE \<Longrightarrow> redirect io \<noteq> Some VAR_ADD \<Longrightarrow>
   snd (log_output io vars out bs b) = vars"
  by (auto simp: log_output_def Let_def save_bytes_no_var split: option.splits pyval.splits)

lemma log_msg_no_var:
  "redirect io \<noteq> Some VAR_WRITE \<Longrightarrow> redirect io \<noteq> Some VAR_ADD \<Longrightarrow>
   snd (log_msg io vars m) = vars"
  using log_output_no_var [of io vars "PStr m" None False]
  by (auto simp: log_msg_def split: prod.splits option.splits)

lemma log_msg_first: "hd (fst (log_msg io vars m)) = Log m"
  by (auto simp: log_msg_def split: prod.splits option.splits)

text \<open>
  What \<^verbatim>\<open>do_set\<close> does with a read-only variable: for every name in
  \<^verbatim>\<open>readOnlyVariables\<close> it does nothing but log the READ ONLY error, and unless the
  command line redirects the output into a variable (\<^verbatim>\<open>$>\<close>, \<^verbatim>\<open>$>>\<close>) all console
  variables are as before.
\<close>

lemma set_read_only_guard:
  "varName \<in> set readOnlyVariables \<longrightarrow>
     do_set io vars (Some [varName, value]) = log_msg io vars msg_read_only \<and>
     hd (fst (do_set io vars (Some [varName, value]))) = Log msg_read_only \<and>
     (redirect io \<noteq> Some VAR_WRITE \<and> redirect io \<noteq> Some VAR_ADD \<longrightarrow>
        snd (do_set io vars (Some [varName, value])) = vars)"
  by (simp add: do_set_def log_msg_first log_msg_no_var)

lemma set_read_only_guard_witness:
  "''header_file'' \<in> set readOnlyVariables \<and>
   (redirect plain_io \<noteq> Some VAR_WRITE \<and> redirect plain_io \<noteq> Some VAR_ADD) \<and>
   do_set plain_io (init_variables PNone) (Some [''header_file'', ''x'']) =
     log_msg plain_io (init_variables PNone) msg_read_only \<and>
   hd (fst (do_set plain_io (init_variables PNone) (Some [''header_file'', ''x'']))) = Log msg_read_only \<and>
   snd (do_set plain_io (init_variables PNone) (Some [''header_file'', ''x''])) = init_variables PNone"
proof -
  have h1: "''header_file'' \<in> set readOnlyVariables" by code_simp
  have h2: "redirect plain_io \<noteq> Some VAR_WRITE \<and> redirect plain_io \<noteq> Some VAR_ADD" by code_simp
  from set_read_only_guard [of "''header_file''" plain_io "init_variables PNone" "''x''"] h1 h2
  show ?thesis by blast
qed

lemma versioned_Inl: "a = Inl ev \<Longrightarrow> versioned a c pdfFile body = ev"
  by (simp add: versioned_def)

lemma versioned_too_high:
  "a = Inr pa \<Longrightarrow> version_str pa = Some s \<Longrightarrow> getNumUpdates c p < int_of_str s \<Longrightarrow>
   versioned a c (Some p) body = [Log msg_version_not_valid]"
  by (simp add: versioned_def check_version_def)

lemma filters_filter_args_result:
  "filters_filter_args as fs = Inr fs' \<Longrightarrow> fs' = fs @ map lower as"
proof (induction as arbitrary: fs)
  case Nil
  then show ?case by simp
next
  case (Cons a as)
  from Cons.prems have r: "filters_filter_args as (fs @ [lower a]) = Inr fs'"
    by (auto simp: Let_def split: if_splits)
  from Cons.IH [OF r] show ?case by simp
qed

lemma changelog_version:
  "changelog_args pdfFile (Some args) = Inr pa \<Longrightarrow>
   version_str pa = version_argument Changelog w args \<and> (\<forall>s. version_str pa = Some s \<longrightarrow> isdigit s)"
  by (cases args) (auto simp: changelog_args_def Let_def split: if_splits)

lemma metadata_version:
  "metadata_args pdfFile (Some args) = Inr pa \<Longrightarrow>
   version_str pa = version_argument Metadata w args \<and> (\<forall>s. version_str pa = Some s \<longrightarrow> isdigit s)"
  by (cases args) (auto simp: metadata_args_def Let_def split: if_splits)

lemma offsets_version:
  "offsets_args pdfFile (Some args) = Inr pa \<Longrightarrow>
   version_str pa = version_argument Offsets w args \<and> (\<forall>s. version_str pa = Some s \<longrightarrow> isdigit s)"
  by (auto simp: offsets_args_def Let_def split: if_splits)

lemma object_version:
  "object_args pdfFile (Some args) = Inr pa \<Longrightarrow>
   version_str pa = version_argument Object w args \<and> (\<forall>s. version_str pa = Some s \<longrightarrow> isdigit s)"
  by (auto simp: object_args_def Let_def split: if_splits)

lemma encode_strings_version:
  "encode_strings_args pdfFile (Some args) = Inr pa \<Longrightarrow>
   version_str pa = version_argument Encode_strings w args \<and> (\<forall>s. version_str pa = Some s \<longrightarrow> isdigit s)"
  by (auto simp: encode_strings_args_def Let_def split: if_splits)

lemma references_version:
  "references_args pdfFile (Some args) = Inr pa \<Longrightarrow>
   version_str pa = version_argument References w args \<and> (\<forall>s. version_str pa = Some s \<longrightarrow> isdigit s)"
  by (auto simp: references_args_def Let_def split: if_splits)

lemma save_version_version:
  "save_version_args pdfFile (Some args) = Inr pa \<Longrightarrow>
   version_str pa = version_argument Save_version w args \<and> (\<forall>s. version_str pa = Some s \<longrightarrow> isdigit s)"
  by (auto simp: save_version_args_def Let_def split: if_splits)

lemma create_version:
  "create_args pb pdfFile (Some args) = Inr pa \<Longrightarrow>
   version_str pa = version_argument Create_object_stream w args \<and> (\<forall>s. version_str pa = Some s \<longrightarrow> isdigit s)"
  by (cases args) (auto simp: create_args_def Let_def split: if_splits)

lemma modify_version:
  "modify_args w (Some args) = Inr pa \<Longrightarrow>
   version_str pa = version_argument Modify w args \<and> (\<forall>s. version_str pa = Some s \<longrightarrow> isdigit s)"
  unfolding modify_args_def Let_def
  by (simp split: if_splits) auto

lemma filters_version:
  "filters_args pdfFile (Some args) = Inr pa \<Longrightarrow>
   version_str pa = version_argument Filters w args \<and> (\<forall>s. version_str pa = Some s \<longrightarrow> isdigit s)"
  unfolding filters_args_def Let_def
  by (cases args; cases "tl args") (auto split: if_splits sum.splits)

lemma args_phase_version:
  assumes "args_phase cmd w pb pdfFile (Some args) = Inr pa"
  shows "version_str pa = version_argument cmd w args \<and> (\<forall>s. version_str pa = Some s \<longrightarrow> isdigit s)"
proof (cases cmd)
  case Changelog
  from assms have "changelog_args pdfFile (Some args) = Inr pa" unfolding Changelog by simp
  then show ?thesis unfolding Changelog by (rule changelog_version)
next
  case Create_object_stream
  from assms have "create_args pb pdfFile (Some args) = Inr pa" unfolding Create_object_stream by simp
  then show ?thesis unfolding Create_object_stream by (rule create_version)
next
  case Encode_strings
  from assms have "encode_strings_args pdfFile (Some args) = Inr pa" unfolding Encode_strings by simp
  then show ?thesis unfolding Encode_strings by (rule encode_strings_version)
next
  case Metadata
  from assms have "metadata_args pdfFile (Some args) = Inr pa" unfolding Metadata by simp
  then show ?thesis unfolding Metadata by (rule metadata_version)
next
  case Modify
  from assms have "modify_args w (Some args) = Inr pa" unfolding Modify by simp
  then show ?thesis unfolding Modify by (rule modify_version)
next
  case Object
  from assms have "object_args pdfFile (Some args) = Inr pa" unfolding Object by simp
  then show ?thesis unfolding Object by (rule object_version)
next
  case Offsets
  from assms have "offsets_args pdfFile (Some args) = Inr pa" unfolding Offsets by simp
  then show ?thesis unfolding Offsets by (rule offsets_version)
next
  case Filters
  from assms have "filters_args pdfFile (Some args) = Inr pa" unfolding Filters by simp
  then show ?thesis unfolding Filters by (rule filters_version)
next
  case References
  from assms have "references_args pdfFile (Some args) = Inr pa" unfolding References by simp
  then show ?thesis unfolding References by (rule references_version)
next
  case Save_version
  from assms have "save_version_args pdfFile (Some args) = Inr pa" unfolding Save_version by simp
  then show ?thesis unfolding Save_version by (rule save_version_version)
qed

lemma remove_nones_eq: "remove_nones fs = filter (\<lambda>f. f \<noteq> ''none'') fs"
proof (induction fs rule: remove_nones.induct)
  case (1 fs)
  show ?case
  proof (cases "''none'' \<in> set fs")
    case True
    have "filter (\<lambda>f. f \<noteq> ''none'') (remove1 ''none'' fs) = filter (\<lambda>f. f \<noteq> ''none'') fs"
      by (induction fs) auto
    with True "1.IH" show ?thesis by (subst remove_nones.simps) simp
  next
    case False
    then have "filter (\<lambda>f. f \<noteq> ''none'') fs = fs" by (induction fs) auto
    with False show ?thesis by (subst remove_nones.simps) simp
  qed
qed

lemma valid_filter_key:
  "f \<in> set validFilters \<Longrightarrow> f \<noteq> ''none'' \<Longrightarrow> map_of filter2RealFilterDict f = Some (real_filter f)"
  by (auto simp: validFilters_def filter_keys_def filter2RealFilterDict_def real_filter_def)

lemma pdf_names_valid:
  "set fs \<subseteq> set validFilters \<Longrightarrow> ''none'' \<notin> set fs \<Longrightarrow>
   pdf_names fs = Some (map (\<lambda>f. PDFName (real_filter f)) fs)"
proof (induction fs)
  case Nil
  then show ?case by simp
next
  case (Cons f fs)
  then have "map_of filter2RealFilterDict f = Some (real_filter f)"
    by (intro valid_filter_key) auto
  with Cons show ?case by simp
qed

lemma filters_args_Cons:
  "filters_args (Some p) (Some (i # fargs)) =
    (case (if fargs = [] then Inr []
           else filters_filter_args (drop (if isdigit (hd fargs) then 1 else 0) fargs) []) of
       Inl ev \<Rightarrow> Inl ev
     | Inr fs \<Rightarrow>
        if \<not> isdigit i then Inl [HelpShown]
        else Inr \<lparr>version_str = (if fargs \<noteq> [] \<and> isdigit (hd fargs) then Some (hd fargs) else None),
                  locals = i # fs\<rparr>)"
proof (cases fargs)
  case Nil
  then show ?thesis by (simp add: filters_args_def)
next
  case (Cons v rest)
  show ?thesis
  proof (cases "isdigit v")
    case True
    with Cons show ?thesis by (simp add: filters_args_def split: sum.splits)
  next
    case False
    with Cons show ?thesis by (simp add: filters_args_def split: sum.splits)
  qed
qed













































section \<open>Claims\<close>

text \<open>
  C1. The decode command, invoked with an unsupported filter (ccittfax, ccf, jbig2, dct,
  jpx), reports the filter as not implemented and attempts no decoding step.

  For the fax filter the code does otherwise. On \<^verbatim>\<open>decode string abc ccf\<close> the name
  \<^verbatim>\<open>ccf\<close> is a key of the dictionary and is not an element of the not-implemented
  list (whose first element is \<^verbatim>\<open>"ccittfaxccf"\<close>), so the command calls
  \<^verbatim>\<open>decodeStream\<close> on the input with \<^verbatim>\<open>/CCITTFaxDecode\<close> and logs whatever that
  returns.
\<close>

theorem decode_ccf_reaches_decoder:
  "do_decode w pdfFile vars (Some [''string'', ''abc'', ''ccf'']) =
     (case decodeStream w (PStr ''abc'') ''/CCITTFaxDecode'' of
        Inl err \<Rightarrow> [Log (''[!] Error: '' @ err)]
      | Inr c \<Rightarrow> [LogBytes c])"
proof -
  have da: "decode_args pdfFile (Some [''string'', ''abc'', ''ccf'']) =
      Inr \<lparr>l_srcType = ''string'', l_src = ''abc'', l_offset = 0, l_size = 0, l_filters = [''ccf'']\<rparr>"
    using ccf_is_key ccf_not_listed
    by (simp add: decode_args_def validTypes_def lower_ccf)
  show ?thesis
    by (simp add: do_decode_def da decode_content_def content_guard_def ccf_real
        split: sum.splits)
qed

text \<open>
  C5. The decode command applies the filter chain in command-line order, each step on the
  output of the one before. When a step fails (base-64 included) the command logs one
  error message and nothing else; the decoded bytes are logged only when every step has
  succeeded.

  Once the arguments are accepted and the content is fetched, the filters are the
  lowered filter arguments in their order, and the command's output is the one event
  the chain of the specification gives. Whatever the input, decoded bytes are never
  logged beside another event.
\<close>

theorem decode_chain_in_order:
  "(decode_args pdfFile (Some args) = Inr l \<longrightarrow> decode_content w pdfFile vars l = Inr c \<longrightarrow>
      l_filters l = map lower (drop (if l_srcType l = ''raw'' then 3 else 2) args) \<and>
      do_decode w pdfFile vars (Some args) =
        (case chain_spec (map (decode_step w) (l_filters l)) c of
           Inl err \<Rightarrow> [Log (''[!] Error: '' @ err)]
         | Inr y \<Rightarrow> [LogBytes y])) \<and>
   (LogBytes y \<in> set (do_decode w pdfFile vars a) \<longrightarrow> do_decode w pdfFile vars a = [LogBytes y])"
proof (intro conjI impI)
  assume da: "decode_args pdfFile (Some args) = Inr l"
    and dc: "decode_content w pdfFile vars l = Inr c"
  from da have ne: "args \<noteq> []" by (auto simp: decode_args_def)
  from da ne have len: "length args > 2"
    by (auto simp: decode_args_def split: list.splits if_splits)
  show fl: "l_filters l = map lower (drop (if l_srcType l = ''raw'' then 3 else 2) args)"
  proof (cases "args ! 0 \<in> set [''variable'', ''file'', ''string'']")
    case True
    with da ne len obtain fs where fa: "decode_filter_args (drop 2 args) [] = Inr fs"
      and l: "l = \<lparr>l_srcType = args ! 0, l_src = args ! 1, l_offset = 0, l_size = 0, l_filters = fs\<rparr>"
      unfolding decode_args_def
      by (cases args) (auto split: if_splits sum.splits)
    from True l have "l_srcType l \<noteq> ''raw''" by auto
    with decode_filter_args_result [OF fa] l show ?thesis by simp
  next
    case False
    with da ne len obtain fs where fa: "decode_filter_args (drop 3 args) [] = Inr fs"
      and l: "l = \<lparr>l_srcType = args ! 0, l_src = [], l_offset = int_of_str (args ! 1),
                    l_size = int_of_str (args ! 2), l_filters = fs\<rparr>"
      and v: "args ! 0 \<in> set validTypes"
      unfolding decode_args_def
      by (cases args) (auto split: if_splits sum.splits)
    from False v l have "l_srcType l = ''raw''" by (auto simp: validTypes_def)
    with decode_filter_args_result [OF fa] l show ?thesis by simp
  qed
  have keys: "set (l_filters l) \<subseteq> set filter_keys"
  proof (cases "args ! 0 \<in> set [''variable'', ''file'', ''string'']")
    case True
    with da ne len obtain fs where fa: "decode_filter_args (drop 2 args) [] = Inr fs"
      and l: "l_filters l = fs"
      unfolding decode_args_def
      by (cases args) (auto split: if_splits sum.splits)
    with decode_filter_args_result [OF fa] show ?thesis by simp
  next
    case False
    with da ne len obtain fs where fa: "decode_filter_args (drop 3 args) [] = Inr fs"
      and l: "l_filters l = fs"
      unfolding decode_args_def
      by (cases args) (auto split: if_splits sum.splits)
    with decode_filter_args_result [OF fa] show ?thesis by simp
  qed
  show "do_decode w pdfFile vars (Some args) =
        (case chain_spec (map (decode_step w) (l_filters l)) c of
           Inl err \<Rightarrow> [Log (''[!] Error: '' @ err)]
         | Inr y \<Rightarrow> [LogBytes y])"
    by (simp add: do_decode_def da dc decode_loop_chain [OF keys])
next
  assume m: "LogBytes y \<in> set (do_decode w pdfFile vars a)"
  show "do_decode w pdfFile vars a = [LogBytes y]"
  proof (cases "decode_args pdfFile a")
    case (Inl ev)
    with m decode_args_no_bytes [OF Inl, of y] show ?thesis by (simp add: do_decode_def)
  next
    case (Inr l)
    show ?thesis
    proof (cases "decode_content w pdfFile vars l")
      case (Inl ev)
      with m Inr decode_content_no_bytes [OF Inl, of y] show ?thesis by (simp add: do_decode_def)
    next
      case r: (Inr c)
      with m Inr have "LogBytes y \<in> set (decode_loop w (l_filters l) c)"
        by (simp add: do_decode_def)
      then have "decode_loop w (l_filters l) c = [LogBytes y]" by (rule decode_loop_single)
      with Inr r show ?thesis by (simp add: do_decode_def)
    qed
  qed
qed


theorem decode_chain_in_order_witness:
  "decode_args (None :: unit option) (Some [''string'', ''abc'', ''B64'', ''fl'']) =
     Inr \<lparr>l_srcType = ''string'', l_src = ''abc'', l_offset = 0, l_size = 0, l_filters = [''b64'', ''fl'']\<rparr> \<and>
   decode_content test_world None Map.empty
     \<lparr>l_srcType = ''string'', l_src = ''abc'', l_offset = 0, l_size = 0, l_filters = [''b64'', ''fl'']\<rparr> =
     Inr (PStr ''abc'') \<and>
   do_decode test_world None Map.empty (Some [''string'', ''abc'', ''B64'', ''fl'']) =
     [Log ''[!] Error: decoding error''] \<and>
   LogBytes (PStr ''abc'') \<in> set (do_decode test_world None Map.empty (Some [''string'', ''abc'', ''b64''])) \<and>
   do_decode test_world None Map.empty (Some [''string'', ''abc'', ''b64'']) = [LogBytes (PStr ''abc'')]"
proof -
  let ?l = "\<lparr>l_srcType = ''string'', l_src = ''abc'', l_offset = 0, l_size = 0, l_filters = [''b64'', ''fl'']\<rparr>"
  have h1: "decode_args (None :: unit option) (Some [''string'', ''abc'', ''B64'', ''fl'']) = Inr ?l"
    by code_simp
  have h2: "decode_content test_world None Map.empty ?l = Inr (PStr ''abc'')"
    by code_simp
  have h3: "chain_spec (map (decode_step test_world) (l_filters ?l)) (PStr ''abc'') = Inl ''decoding error''"
    by code_simp
  have h4: "LogBytes (PStr ''abc'') \<in> set (do_decode test_world None Map.empty (Some [''string'', ''abc'', ''b64'']))"
    by code_simp
  from decode_chain_in_order [of None "[''string'', ''abc'', ''B64'', ''fl'']" ?l test_world Map.empty
      "PStr ''abc''" "PStr ''abc''" "Some [''string'', ''abc'', ''b64'']"] h1 h2 h4
  have "do_decode test_world None Map.empty (Some [''string'', ''abc'', ''B64'', ''fl'']) =
        (case chain_spec (map (decode_step test_world) (l_filters ?l)) (PStr ''abc'') of
           Inl err \<Rightarrow> [Log (''[!] Error: '' @ err)]
         | Inr y \<Rightarrow> [LogBytes y])"
    and h5: "do_decode test_world None Map.empty (Some [''string'', ''abc'', ''b64'']) = [LogBytes (PStr ''abc'')]"
    by blast+
  with h1 h2 h3 h4 show ?thesis by simp
qed

text \<open>
  C9. In raw mode of the encode command (\<^verbatim>\<open>encode raw $offset $num_bytes $filter...\<close>)
  the byte count passed to the file read is the value of the offset argument: offset and
  count both come from the second argument, and the third is used for the digits-only
  check alone.
\<close>

theorem encode_raw_size_is_offset:
  "isdigit off \<longrightarrow> isdigit nb \<longrightarrow>
     (\<forall>fs. encode_filter_args fargs [] = Inr fs \<longrightarrow>
        do_encode w (Some p) vars (Some (''raw'' # off # nb # fargs)) =
          (case getBytesFromFile w (getPath w p) (int_of_str off) (int_of_str off) of
             Inl err \<Rightarrow> [Log msg_file_not_exist]
           | Inr c \<Rightarrow> if c = PStr [] then [Log msg_content_empty] else encode_loop w fs c)) \<and>
     (\<forall>nb'. isdigit nb' \<longrightarrow>
        do_encode w (Some p) vars (Some (''raw'' # off # nb' # fargs)) =
        do_encode w (Some p) vars (Some (''raw'' # off # nb # fargs)))"
  by (auto simp: do_encode_def encode_args_raw encode_content_def content_guard_def
      split: sum.splits)

theorem encode_raw_size_is_offset_witness:
  "isdigit ''3'' \<and> isdigit ''100'' \<and> encode_filter_args [''b64''] [] = Inr [''b64''] \<and> isdigit ''7'' \<and>
   do_encode test_world (Some ()) Map.empty (Some [''raw'', ''3'', ''100'', ''b64'']) = [LogBytes (PBytes ''xxx'')] \<and>
   do_encode test_world (Some ()) Map.empty (Some [''raw'', ''3'', ''7'', ''b64'']) = [LogBytes (PBytes ''xxx'')]"
proof -
  have h1: "isdigit ''3''" and h2: "isdigit ''100''" and h3: "encode_filter_args [''b64''] [] = Inr [''b64'']"
    and h4: "isdigit ''7''"
    by code_simp+
  have h5: "(case getBytesFromFile test_world (getPath test_world ()) (int_of_str ''3'') (int_of_str ''3'') of
             Inl err \<Rightarrow> [Log msg_file_not_exist]
           | Inr c \<Rightarrow> if c = PStr [] then [Log msg_content_empty] else encode_loop test_world [''b64''] c)
      = [LogBytes (PBytes ''xxx'')]"
    by code_simp
  from encode_raw_size_is_offset [of "''3''" "''100''" "[''b64'']" test_world "()" Map.empty] h1 h2 h3 h4 h5
  show ?thesis by simp
qed

text \<open>
  C4 (amended). The malformed-output options combine. The arguments of
  \<^verbatim>\<open>malformed_output\<close> are read from the left, and reading stops at the first \<^verbatim>\<open>0\<close> and at
  the first header-file argument. Distinct numeric options between 2 and 6 are stored
  as given, with no header file. No argument at all stores the single option 1. A
  \<^verbatim>\<open>0\<close> that is reached after options between 1 and 6 stores the empty list and no header
  file. Once option 1 has been read, further options between 1 and 6 change nothing. A
  numeric option above 6 that is reached after options between 1 and 6 makes the command
  show its help and store nothing. The save command passes the stored options and header
  file to the document's save operation.
\<close>

theorem malformed_output_options:
  "(args \<noteq> [] \<and> list_all (opt_in 2 6) args \<and> distinct (map int_of_str args) \<longrightarrow>
      do_malformed_output ex io vars (Some args) =
        log_msg io (store_malformed vars (map int_of_str args) None) msg_malformed_ok) \<and>
   do_malformed_output ex io vars (Some []) =
     log_msg io (store_malformed vars [1] None) msg_malformed_ok \<and>
   (list_all (opt_in 1 6) pre \<and> opt_in 0 0 z \<longrightarrow>
      do_malformed_output ex io vars (Some (pre @ z # post)) =
        log_msg io (store_malformed vars [] None) msg_malformed_ok) \<and>
   (list_all (opt_in 1 6) pre \<and> opt_in 1 1 one \<and> list_all (opt_in 1 6) post \<longrightarrow>
      do_malformed_output ex io vars (Some (pre @ one # post)) =
      do_malformed_output ex io vars (Some (pre @ [one]))) \<and>
   (list_all (opt_in 1 6) pre \<and> isdigit b \<and> 6 < int_of_str b \<longrightarrow>
      do_malformed_output ex io vars (Some (pre @ b # post)) = ([HelpShown], vars)) \<and>
   do_save w c io (Some p) (store_malformed vars opts hf) (Some [f]) =
     (case pdf_save c p f None (pylist_of_nats opts) (pyval_of_opt hf) of
        Inl err \<Rightarrow> log_msg io (store_malformed vars opts hf) ''[!] Error: Saving failed''
      | Inr u \<Rightarrow> log_msg io (store_malformed vars opts hf) ''[+] File saved succesfully'')"
proof (intro conjI impI)
  assume a: "args \<noteq> [] \<and> list_all (opt_in 2 6) args \<and> distinct (map int_of_str args)"
  then have w: "list_all (opt_in 1 6) args"
    by (auto simp: list_all_iff opt_in_def)
  from a have no1: "1 \<notin> set (map int_of_str args)"
    by (auto simp: list_all_iff opt_in_def)
  from mo_loop_prefix [OF w, of ex "[]" "[]"]
  have "mo_loop ex args [] = Done (foldl mo_add [] (map int_of_str args)) None" by simp
  also have "foldl mo_add [] (map int_of_str args) = map int_of_str args"
    using foldl_mo_add_fresh [of "map int_of_str args" "[]"] a no1 by simp
  finally show "do_malformed_output ex io vars (Some args) =
        log_msg io (store_malformed vars (map int_of_str args) None) msg_malformed_ok"
    using a by (simp add: do_malformed_output_def)
next
  show "do_malformed_output ex io vars (Some []) =
     log_msg io (store_malformed vars [1] None) msg_malformed_ok"
    by (simp add: do_malformed_output_def)
next
  assume a: "list_all (opt_in 1 6) pre \<and> opt_in 0 0 z"
  then have z: "isdigit z" "int_of_str z = 0" by (auto simp: opt_in_def)
  from a mo_loop_prefix [of pre ex "z # post" "[]"] z
  have "mo_loop ex (pre @ z # post) [] = Done [] None" by simp
  then show "do_malformed_output ex io vars (Some (pre @ z # post)) =
        log_msg io (store_malformed vars [] None) msg_malformed_ok"
    by (simp add: do_malformed_output_def)
next
  assume a: "list_all (opt_in 1 6) pre \<and> opt_in 1 1 one \<and> list_all (opt_in 1 6) post"
  then have one: "int_of_str one = 1" and o16: "opt_in 1 6 one" by (auto simp: opt_in_def)
  from a o16 have p1: "list_all (opt_in 1 6) (pre @ [one])" by simp
  let ?acc = "foldl mo_add [] (map int_of_str (pre @ [one]))"
  have in1: "1 \<in> set ?acc" using mo_add_one_last [of "[]" "map int_of_str pre"] one by simp
  have l1: "mo_loop ex ((pre @ [one]) @ post) [] = mo_loop ex post ?acc"
    by (rule mo_loop_prefix [OF p1])
  have l2: "mo_loop ex (post @ []) ?acc = mo_loop ex [] (foldl mo_add ?acc (map int_of_str post))"
    using a by (intro mo_loop_prefix) simp
  have l3: "mo_loop ex ((pre @ [one]) @ []) [] = mo_loop ex [] ?acc"
    by (rule mo_loop_prefix [OF p1])
  from l1 l2 l3 foldl_mo_add_all [OF in1, of "map int_of_str post"]
  have "mo_loop ex (pre @ one # post) [] = mo_loop ex (pre @ [one]) []" by simp
  then show "do_malformed_output ex io vars (Some (pre @ one # post)) =
      do_malformed_output ex io vars (Some (pre @ [one]))"
    by (simp add: do_malformed_output_def)
next
  assume a: "list_all (opt_in 1 6) pre \<and> isdigit b \<and> 6 < int_of_str b"
  with mo_loop_prefix [of pre ex "b # post" "[]"]
  have "mo_loop ex (pre @ b # post) [] = Fail" by simp
  then show "do_malformed_output ex io vars (Some (pre @ b # post)) = ([HelpShown], vars)"
    by (simp add: do_malformed_output_def)
next
  show "do_save w c io (Some p) (store_malformed vars opts hf) (Some [f]) =
     (case pdf_save c p f None (pylist_of_nats opts) (pyval_of_opt hf) of
        Inl err \<Rightarrow> log_msg io (store_malformed vars opts hf) ''[!] Error: Saving failed''
      | Inr u \<Rightarrow> log_msg io (store_malformed vars opts hf) ''[+] File saved succesfully'')"
    by (simp add: do_save_def store_malformed_def split: sum.splits)
qed

theorem malformed_output_options_witness:
  "([''2'', ''5''] \<noteq> [] \<and> list_all (opt_in 2 6) [''2'', ''5''] \<and> distinct (map int_of_str [''2'', ''5''])) \<and>
   (list_all (opt_in 1 6) [''3''] \<and> opt_in 0 0 ''0'') \<and>
   (list_all (opt_in 1 6) [''3''] \<and> opt_in 1 1 ''1'' \<and> list_all (opt_in 1 6) [''4'']) \<and>
   (list_all (opt_in 1 6) [''3''] \<and> isdigit ''9'' \<and> 6 < int_of_str ''9'') \<and>
   do_malformed_output no_file plain_io (init_variables PNone) (Some [''2'', ''5'']) =
     log_msg plain_io (store_malformed (init_variables PNone) (map int_of_str [''2'', ''5'']) None)
       msg_malformed_ok \<and>
   do_malformed_output no_file plain_io (init_variables PNone) (Some ([''3''] @ ''0'' # [''4''])) =
     log_msg plain_io (store_malformed (init_variables PNone) [] None) msg_malformed_ok \<and>
   do_malformed_output no_file plain_io (init_variables PNone) (Some ([''3''] @ ''1'' # [''4''])) =
     do_malformed_output no_file plain_io (init_variables PNone) (Some ([''3''] @ [''1''])) \<and>
   do_malformed_output no_file plain_io (init_variables PNone) (Some ([''3''] @ ''9'' # [''4''])) =
     ([HelpShown], init_variables PNone)"
proof -
  have h1: "[''2'', ''5''] \<noteq> [] \<and> list_all (opt_in 2 6) [''2'', ''5''] \<and>
      distinct (map int_of_str [''2'', ''5''])"
    by code_simp
  have h2: "list_all (opt_in 1 6) [''3''] \<and> opt_in 0 0 ''0''"
    by code_simp
  have h3: "list_all (opt_in 1 6) [''3''] \<and> opt_in 1 1 ''1'' \<and> list_all (opt_in 1 6) [''4'']"
    by code_simp
  have h4: "list_all (opt_in 1 6) [''3''] \<and> isdigit ''9'' \<and> 6 < int_of_str ''9''"
    by code_simp
  from malformed_output_options [of "[''2'', ''5'']" no_file plain_io "init_variables PNone"
      "[''3'']" "''0''" "[''4'']" "''1''" "''9''" test_world test_core "()" "[]" None "[]"] h1 h2 h3 h4
  show ?thesis by blast
qed

text \<open>
  The claim as stated fails: after \<^verbatim>\<open>malformed_output 3\<close> has stored the option 3, the
  command \<^verbatim>\<open>malformed_output 0 7\<close> names the numeric option 7, yet it does not fail: the
  loop is left at the \<^verbatim>\<open>0\<close>, the success message is logged and the stored options are
  replaced by the empty list.
\<close>

theorem malformed_output_zero_then_seven:
  "isdigit ''7'' \<and> 6 < int_of_str ''7'' \<and>
   snd (do_malformed_output no_file plain_io (init_variables PNone) (Some [''3''])) ''malformed_options'' =
     Some (Same (PList [PInt 3])) \<and>
   fst (do_malformed_output no_file plain_io
          (snd (do_malformed_output no_file plain_io (init_variables PNone) (Some [''3''])))
          (Some [''0'', ''7''])) = [Log msg_malformed_ok] \<and>
   snd (do_malformed_output no_file plain_io
          (snd (do_malformed_output no_file plain_io (init_variables PNone) (Some [''3''])))
          (Some [''0'', ''7''])) ''malformed_options'' = Some (Same (PList []))"
  by code_simp



text \<open>
  C7. The replace command on a console variable or a file replaces every occurrence of
  the first string by the second, stores the result and reports success, or leaves the
  content unchanged and reports that the string was not found.

  For a file the code does otherwise. The content read from the file is \<^verbatim>\<open>bytes\<close>, the
  search string is a \<^verbatim>\<open>str\<close>, and \<^verbatim>\<open>content.find(string1)\<close> (line 3546) raises
  \<^verbatim>\<open>TypeError\<close>: whenever the named file exists, the command ends with that exception,
  whatever the file holds and whatever the two strings are; nothing is reported and
  nothing is written.
\<close>

theorem replace_file_raises:
  "do_replace (w\<lparr>path_exists := any_file\<rparr>) c io pdfFile vars (Some [''file'', f, string1, string2]) =
     ([Raised TypeError], vars, pdfFile)"
  by (simp add: do_replace_def replace_in_file_def with_pdf_def any_file_def)

text \<open>
  C10. The console variables \<^verbatim>\<open>malformed_options\<close> and \<^verbatim>\<open>header_file\<close> are writable
  only through the malformed_output command: set refuses them with a READ ONLY error, and
  every other command preserves what is stored in them.

  The code does otherwise. \<^verbatim>\<open>readOnlyVariables\<close> is looked at by \<^verbatim>\<open>do_set\<close> alone
  (line 3907); \<^verbatim>\<open>do_replace\<close> (line 3561) and the redirection of the output into a
  variable in \<^verbatim>\<open>log_output\<close> (lines 4814 to 4820) assign to
  \<^verbatim>\<open>self.variables[name]\<close> without that test. After \<^verbatim>\<open>malformed_output 2 /tmp/h\<close>,
  which stores the options \<^verbatim>\<open>[2]\<close> and the header file \<^verbatim>\<open>/tmp/h\<close>:
  \<^verbatim>\<open>replace variable header_file tmp var\<close> changes the stored header file to
  \<^verbatim>\<open>/var/h\<close>; \<^verbatim>\<open>set header_file x $> header_file\<close> is refused as READ ONLY and then
  overwrites the header file with that error message; and
  \<^verbatim>\<open>set malformed_options x $> malformed_options\<close> is refused likewise and overwrites
  the stored options with the message.
\<close>

theorem read_only_variables_overwritten:
  "''malformed_options'' \<in> set readOnlyVariables \<and>
   ''header_file'' \<in> set readOnlyVariables \<and>
   after_malformed_output ''malformed_options'' = Some (Same (PList [PInt 2])) \<and>
   after_malformed_output ''header_file'' = Some (Same (PStr ''/tmp/h'')) \<and>
   fst (do_replace test_world test_core plain_io None after_malformed_output
      (Some [''variable'', ''header_file'', ''tmp'', ''var''])) = [Log msg_replaced] \<and>
   fst (snd (do_replace test_world test_core plain_io None after_malformed_output
      (Some [''variable'', ''header_file'', ''tmp'', ''var'']))) ''header_file'' =
     Some (Two (PStr ''/var/h'') (PStr ''/tmp/h'')) \<and>
   fst (do_set to_header_file after_malformed_output (Some [''header_file'', ''x''])) =
     [Log msg_read_only] \<and>
   snd (do_set to_header_file after_malformed_output (Some [''header_file'', ''x''])) ''header_file'' =
     Some (Same (PStr msg_read_only)) \<and>
   fst (do_set to_malformed_options after_malformed_output (Some [''malformed_options'', ''x''])) =
     [Log msg_read_only] \<and>
   snd (do_set to_malformed_options after_malformed_output (Some [''malformed_options'', ''x'']))
     ''malformed_options'' = Some (Same (PStr msg_read_only))"
  by code_simp

text \<open>
  C3. For every console command that takes a version argument (changelog, create
  object_stream, encode_strings, metadata, modify, object, offsets, filters, references,
  save_version): a version argument that is not a number ends the command while its
  arguments are read, before the document is touched; the version the command goes on
  with is that argument; a version above the document's number of updates makes the
  command log "The version number is not valid" and return, whatever its body is, that
  is, without a call of its document operation. A command that ends while reading its
  arguments does nothing else.
\<close>

theorem version_argument_checked:
  "(version_argument cmd w args = Some s \<and> \<not> isdigit s \<longrightarrow>
      (\<exists>ev. args_phase cmd w pb pdfFile (Some args) = Inl ev)) \<and>
   (args_phase cmd w pb pdfFile (Some args) = Inr pa \<longrightarrow>
      version_str pa = version_argument cmd w args) \<and>
   (args_phase cmd w pb (Some p) (Some args) = Inr pa \<and> version_str pa = Some s \<and>
    getNumUpdates c p < int_of_str s \<longrightarrow>
      run_command cmd w c pb (Some p) (Some args) body = [Log msg_version_not_valid]) \<and>
   (args_phase cmd w pb pdfFile a = Inl ev \<longrightarrow> run_command cmd w c pb pdfFile a body = ev)"
proof (intro conjI impI)
  assume h: "version_argument cmd w args = Some s \<and> \<not> isdigit s"
  show "\<exists>ev. args_phase cmd w pb pdfFile (Some args) = Inl ev"
  proof (cases "args_phase cmd w pb pdfFile (Some args)")
    case (Inl ev)
    then show ?thesis by blast
  next
    case (Inr pa)
    from args_phase_version [OF Inr] have "version_str pa = version_argument cmd w args"
      and "\<forall>s. version_str pa = Some s \<longrightarrow> isdigit s" by blast+
    with h have False by metis
    then show ?thesis ..
  qed
next
  assume "args_phase cmd w pb pdfFile (Some args) = Inr pa"
  then show "version_str pa = version_argument cmd w args"
    by (simp add: args_phase_version)
next
  assume "args_phase cmd w pb (Some p) (Some args) = Inr pa \<and> version_str pa = Some s \<and>
    getNumUpdates c p < int_of_str s"
  then show "run_command cmd w c pb (Some p) (Some args) body = [Log msg_version_not_valid]"
    by (simp add: run_command_def versioned_too_high)
next
  assume "args_phase cmd w pb pdfFile a = Inl ev"
  then show "run_command cmd w c pb pdfFile a body = ev"
    by (simp add: run_command_def versioned_Inl)
qed


theorem version_argument_checked_witness:
  "(version_argument Object nat_world [''1'', ''x''] = Some ''x'' \<and> \<not> isdigit ''x'') \<and>
   args_phase Object nat_world no_events (Some 2) (Some [''1'', ''5'']) =
     Inr \<lparr>version_str = Some ''5'', locals = [''1'']\<rparr> \<and>
   getNumUpdates nat_core 2 < int_of_str ''5'' \<and>
   args_phase Object nat_world no_events (Some 2) (Some [''1'', ''x'']) = Inl [HelpShown] \<and>
   (\<exists>ev. args_phase Object nat_world no_events (Some 2) (Some [''1'', ''x'']) = Inl ev) \<and>
   run_command Object nat_world nat_core no_events (Some 2) (Some [''1'', ''5'']) echo_body =
     [Log msg_version_not_valid] \<and>
   run_command Object nat_world nat_core no_events (Some 2) (Some [''1'', ''x'']) echo_body = [HelpShown] \<and>
   run_command Object nat_world nat_core no_events (Some 2) (Some [''1'', ''2'']) echo_body = [Printed]"
proof -
  let ?pa = "\<lparr>version_str = Some ''5'', locals = [''1'']\<rparr>"
  have h1: "version_argument Object nat_world [''1'', ''x''] = Some ''x'' \<and> \<not> isdigit ''x''"
    by code_simp
  have h2: "args_phase Object nat_world no_events (Some 2) (Some [''1'', ''5'']) = Inr ?pa"
    by code_simp
  have h3: "getNumUpdates nat_core 2 < int_of_str ''5''"
    by code_simp
  have h4: "args_phase Object nat_world no_events (Some 2) (Some [''1'', ''x'']) = Inl [HelpShown]"
    by code_simp
  have h5: "run_command Object nat_world nat_core no_events (Some 2) (Some [''1'', ''2'']) echo_body = [Printed]"
    by code_simp
  from version_argument_checked [where cmd = Object and w = nat_world and args = "[''1'', ''x'']"
      and s = "''x''" and pb = no_events and pdfFile = "Some 2"] h1
  have c1: "\<exists>ev. args_phase Object nat_world no_events (Some 2) (Some [''1'', ''x'']) = Inl ev"
    by blast
  from version_argument_checked [where cmd = Object and w = nat_world and args = "[''1'', ''5'']"
      and s = "''5''" and pb = no_events and pa = ?pa and p = 2 and c = nat_core
      and body = echo_body] h2 h3
  have c2: "run_command Object nat_world nat_core no_events (Some 2) (Some [''1'', ''5'']) echo_body =
     [Log msg_version_not_valid]"
    by simp
  from version_argument_checked [where cmd = Object and w = nat_world and pb = no_events
      and pdfFile = "Some 2" and a = "Some [''1'', ''x'']" and ev = "[HelpShown]" and c = nat_core
      and body = echo_body] h4
  have c3: "run_command Object nat_world nat_core no_events (Some 2) (Some [''1'', ''x'']) echo_body =
     [HelpShown]"
    by blast
  from h1 h2 h3 h4 h5 c1 c2 c3 show ?thesis by blast
qed

text \<open>
  The ten commands on a document with two updates, each given version 5: none reaches its
  body.
\<close>

lemma ten_commands_reject_version_5:
  "list_all (\<lambda>(cmd, args).
      run_command cmd nat_world nat_core no_events (Some 2) (Some args) echo_body =
        [Log msg_version_not_valid])
     [(Changelog, [''5'']), (Create_object_stream, [''object_stream'', ''5'']),
      (Encode_strings, [''1'', ''5'']), (Metadata, [''5'']), (Modify, [''object'', ''1'', ''5'']),
      (Object, [''1'', ''5'']), (Offsets, [''5'']), (Filters, [''1'', ''5'', ''fl'']),
      (References, [''to'', ''1'', ''5'']), (Save_version, [''5'', ''out.pdf''])]"
  by code_simp

text \<open>
  C8. A failed open leaves the console without a document, so that every later command
  that works on the document reports "You must open a file" instead of acting.

  The first half holds: when \<^verbatim>\<open>parse\<close> returns \<^verbatim>\<open>-1\<close>, \<^verbatim>\<open>do_open\<close> sets
  \<^verbatim>\<open>self.pdfFile\<close> to \<^verbatim>\<open>None\<close>, whatever was open before; and \<^verbatim>\<open>object 1\<close> then
  reports that a file must be opened. But \<^verbatim>\<open>do_modify\<close> has no such test: with no
  document, \<^verbatim>\<open>modify object 1\<close> reaches \<^verbatim>\<open>self.pdfFile.getObject(id, version)\<close> and
  ends with \<^verbatim>\<open>AttributeError\<close>.
\<close>

theorem modify_without_document:
  "snd (do_open (w\<lparr>path_exists := any_file\<rparr>) (c\<lparr>parse := parse_fails\<rparr>) js info pdfFile (Some [f])) = None \<and>
   do_object c None (Some [''1'']) = [Log msg_must_open] \<and>
   do_modify w c None (Some [''object'', ''1'']) body = [Raised AttributeError]"
proof -
  have d: "isdigit ''1''" by code_simp
  have m: "modify_args w (Some [''object'', ''1'']) = Inr \<lparr>version_str = None, locals = [''object'', ''1'']\<rparr>"
    using d by (simp add: modify_args_def)
  show ?thesis
    using d
    by (simp add: do_open_def any_file_def parse_fails_def do_object_def versioned_def
        object_args_def do_modify_def m check_version_def)
qed

text \<open>
  C6 (amended). When the filters command sets two or more filters on a stream object and
  at least one of them is not \<^verbatim>\<open>none\<close>, the \<^verbatim>\<open>/Filter\<close> entry written to the object is
  an array of the corresponding filter names in the reverse of the command-line order,
  with every \<^verbatim>\<open>none\<close> removed; when all of them are \<^verbatim>\<open>none\<close>, nothing is written and
  the entry stays as it was. A single filter name sets \<^verbatim>\<open>/Filter\<close> to that one name,
  and a single \<^verbatim>\<open>none\<close> deletes the entry. The filters are the lowered arguments after
  the id and the optional version, in their order.
\<close>

theorem filters_entry_written:
  "(2 \<le> length fs \<and> set fs \<subseteq> set validFilters \<and> (\<exists>f \<in> set fs. f \<noteq> ''none'') \<longrightarrow>
      filter_update c ob fs =
        of_ret (setElement c ob ''/Filter''
          (PDFArray (map (\<lambda>f. PDFName (real_filter f)) (rev (filter (\<lambda>f. f \<noteq> ''none'') fs)))))) \<and>
   (2 \<le> length fs \<and> (\<forall>f \<in> set fs. f = ''none'') \<longrightarrow> filter_update c ob fs = Updated ob) \<and>
   (g \<in> set validFilters \<and> g \<noteq> ''none'' \<longrightarrow>
      filter_update c ob [g] = of_ret (setElement c ob ''/Filter'' (PDFName (real_filter g)))) \<and>
   filter_update c ob [''none''] = of_ret (delElement c ob ''/Filter'') \<and>
   (filters_args pdfFile (Some (i # fargs)) = Inr pa \<longrightarrow>
      locals pa = i # map lower (drop (if fargs \<noteq> [] \<and> isdigit (hd fargs) then 1 else 0) fargs))"
proof (intro conjI impI)
  assume a: "2 \<le> length fs \<and> set fs \<subseteq> set validFilters \<and> (\<exists>f \<in> set fs. f \<noteq> ''none'')"
  let ?fs' = "rev (filter (\<lambda>f. f \<noteq> ''none'') fs)"
  from a have sub: "set ?fs' \<subseteq> set validFilters" and nn: "''none'' \<notin> set ?fs'" by auto
  from a have ne: "?fs' \<noteq> []" by (auto simp: filter_empty_conv)
  from a have len: "length fs \<noteq> 1" by simp
  show "filter_update c ob fs = of_ret (setElement c ob ''/Filter''
          (PDFArray (map (\<lambda>f. PDFName (real_filter f)) ?fs')))"
    using len ne by (simp add: filter_update_def remove_nones_eq pdf_names_valid [OF sub nn])
next
  assume a: "2 \<le> length fs \<and> (\<forall>f \<in> set fs. f = ''none'')"
  then have "filter (\<lambda>f. f \<noteq> ''none'') fs = []" by (auto simp: filter_empty_conv)
  with a show "filter_update c ob fs = Updated ob"
    by (simp add: filter_update_def remove_nones_eq)
next
  assume "g \<in> set validFilters \<and> g \<noteq> ''none''"
  then show "filter_update c ob [g] = of_ret (setElement c ob ''/Filter'' (PDFName (real_filter g)))"
    by (simp add: filter_update_def valid_filter_key)
next
  show "filter_update c ob [''none''] = of_ret (delElement c ob ''/Filter'')"
    by (simp add: filter_update_def)
next
  assume a: "filters_args pdfFile (Some (i # fargs)) = Inr pa"
  then obtain p where p: "pdfFile = Some p"
    by (cases pdfFile) (simp_all add: filters_args_def)
  show "locals pa = i # map lower (drop (if fargs \<noteq> [] \<and> isdigit (hd fargs) then 1 else 0) fargs)"
  proof (cases "fargs = []")
    case True
    with a p show ?thesis by (auto simp: filters_args_Cons split: if_splits)
  next
    case False
    let ?k = "if isdigit (hd fargs) then 1 else 0 :: nat"
    from a p False obtain fs' where f: "filters_filter_args (drop ?k fargs) [] = Inr fs'"
      and l: "locals pa = i # fs'"
      by (cases "filters_filter_args (drop ?k fargs) []")
         (auto simp: filters_args_Cons split: if_splits)
    from filters_filter_args_result [OF f] l False show ?thesis by simp
  qed
qed

theorem filters_entry_written_witness:
  "(2 \<le> length [''lzw'', ''none'', ''ahx''] \<and> set [''lzw'', ''none'', ''ahx''] \<subseteq> set validFilters \<and>
      (\<exists>f \<in> set [''lzw'', ''none'', ''ahx'']. f \<noteq> ''none'')) \<and>
   filter_update dict_core [] [''lzw'', ''none'', ''ahx''] =
     Updated [(''/Filter'', PDFArray [PDFName ''/ASCIIHexDecode'', PDFName ''/LZWDecode''])] \<and>
   filter_update dict_core [(''/Filter'', PDFName ''/FlateDecode'')] [''none'', ''none''] =
     Updated [(''/Filter'', PDFName ''/FlateDecode'')] \<and>
   (''fl'' \<in> set validFilters \<and> ''fl'' \<noteq> ''none'') \<and>
   filter_update dict_core [] [''fl''] = Updated [(''/Filter'', PDFName ''/FlateDecode'')] \<and>
   filters_args (Some ([] :: (string \<times> pdfelem) list)) (Some (''1'' # [''LZW'', ''none'', ''ahx''])) =
     Inr \<lparr>version_str = None, locals = [''1'', ''lzw'', ''none'', ''ahx'']\<rparr> \<and>
   locals \<lparr>version_str = None, locals = [''1'', ''lzw'', ''none'', ''ahx'']\<rparr> =
     ''1'' # map lower (drop (if [''LZW'', ''none'', ''ahx''] \<noteq> [] \<and> isdigit (hd [''LZW'', ''none'', ''ahx''])
                              then 1 else 0) [''LZW'', ''none'', ''ahx''])"
proof -
  let ?ob = "[(''/Filter'', PDFName ''/FlateDecode'')]"
  let ?pa = "\<lparr>version_str = None, locals = [''1'', ''lzw'', ''none'', ''ahx'']\<rparr>"
  have h1: "2 \<le> length [''lzw'', ''none'', ''ahx''] \<and> set [''lzw'', ''none'', ''ahx''] \<subseteq> set validFilters \<and>
      (\<exists>f \<in> set [''lzw'', ''none'', ''ahx'']. f \<noteq> ''none'')"
    by code_simp
  have h2: "2 \<le> length [''none'', ''none''] \<and> (\<forall>f \<in> set [''none'', ''none'']. f = ''none'')"
    by code_simp
  have h3: "''fl'' \<in> set validFilters \<and> ''fl'' \<noteq> ''none''"
    by code_simp
  have h4: "filters_args (Some ([] :: (string \<times> pdfelem) list)) (Some (''1'' # [''LZW'', ''none'', ''ahx''])) = Inr ?pa"
    by code_simp
  have e1: "of_ret (setElement dict_core [] ''/Filter''
        (PDFArray (map (\<lambda>f. PDFName (real_filter f))
           (rev (filter (\<lambda>f. f \<noteq> ''none'') [''lzw'', ''none'', ''ahx''])))))
      = Updated [(''/Filter'', PDFArray [PDFName ''/ASCIIHexDecode'', PDFName ''/LZWDecode''])]"
    by code_simp
  have e3: "of_ret (setElement dict_core [] ''/Filter'' (PDFName (real_filter ''fl''))) =
      Updated [(''/Filter'', PDFName ''/FlateDecode'')]"
    by code_simp
  have c1: "filter_update dict_core [] [''lzw'', ''none'', ''ahx''] =
      Updated [(''/Filter'', PDFArray [PDFName ''/ASCIIHexDecode'', PDFName ''/LZWDecode''])]"
    unfolding e1 [symmetric]
    using filters_entry_written [where fs = "[''lzw'', ''none'', ''ahx'']" and c = dict_core
        and ob = "[]", THEN conjunct1] h1
    by (rule mp)
  have c2: "filter_update dict_core ?ob [''none'', ''none''] = Updated ?ob"
    using filters_entry_written [where fs = "[''none'', ''none'']" and c = dict_core
        and ob = ?ob, THEN conjunct2, THEN conjunct1] h2
    by (rule mp)
  have c3: "filter_update dict_core [] [''fl''] = Updated [(''/Filter'', PDFName ''/FlateDecode'')]"
    unfolding e3 [symmetric]
    using filters_entry_written [where g = "''fl''" and c = dict_core and ob = "[]",
        THEN conjunct2, THEN conjunct2, THEN conjunct1] h3
    by (rule mp)
  have c4: "locals ?pa = ''1'' # map lower (drop (if [''LZW'', ''none'', ''ahx''] \<noteq> [] \<and>
      isdigit (hd [''LZW'', ''none'', ''ahx'']) then 1 else 0) [''LZW'', ''none'', ''ahx''])"
    using filters_entry_written [where pdfFile = "Some ([] :: (string \<times> pdfelem) list)"
        and i = "''1''" and fargs = "[''LZW'', ''none'', ''ahx'']" and pa = ?pa,
        THEN conjunct2, THEN conjunct2, THEN conjunct2, THEN conjunct2] h4
    by (rule mp)
  show ?thesis
    by (rule conjI [OF h1 conjI [OF c1 conjI [OF c2 conjI [OF h3 conjI [OF c3
          conjI [OF h4 c4]]]]]])
qed

text \<open>
  The claim as stated fails for two or more filters that are all \<^verbatim>\<open>none\<close>: on a stream
  whose \<^verbatim>\<open>/Filter\<close> is \<^verbatim>\<open>/FlateDecode\<close>, the command \<^verbatim>\<open>filters 1 none none\<close> writes
  no entry and the object keeps \<^verbatim>\<open>/FlateDecode\<close>, where the array of the names with
  every \<^verbatim>\<open>none\<close> removed is the empty array (and \<^verbatim>\<open>filters 1 none\<close> deletes the
  entry). The third run shows the reversed array with \<^verbatim>\<open>none\<close> removed.
\<close>

theorem filters_all_none_keeps_entry:
  "do_filters dict_core plain_io (Some [(''/Filter'', PDFName ''/FlateDecode'')])
      (Some [''1'', ''none'', ''none'']) =
     ([LogBytes (PStr [])], Some [(''/Filter'', PDFName ''/FlateDecode'')]) \<and>
   do_filters dict_core plain_io (Some [(''/Filter'', PDFName ''/FlateDecode'')])
      (Some [''1'', ''none'']) = ([LogBytes (PStr [])], Some []) \<and>
   do_filters dict_core plain_io (Some [(''/Filter'', PDFName ''/FlateDecode'')])
      (Some [''1'', ''LZW'', ''none'', ''ahx'']) =
     ([LogBytes (PStr [])],
      Some [(''/Filter'', PDFArray [PDFName ''/ASCIIHexDecode'', PDFName ''/LZWDecode''])])"
  by code_simp




end
